theory Spec2Isabelle
  imports Complex_Main
begin

section \<open>Presence registry, room router and mutation protocol (server)\<close>

subsection \<open>Values and elements\<close>

text \<open>
  The JavaScript values an element field can hold. An absent field (reading it gives
  \<^verbatim>\<open>undefined\<close>) is \<open>None\<close> in the field map; \<open>JObject\<close> stands for any
  other object or array, of which only the identity matters here.
\<close>

datatype jsval = JNull | JBool bool | JNum real | JStr string | JDate nat | JObject nat

type_synonym element = "string \<rightharpoonup> jsval"

text \<open>Truthiness, as \<^verbatim>\<open>||\<close> tests it.\<close>

fun truthy :: "jsval option \<Rightarrow> bool" where
  "truthy None = False"
| "truthy (Some JNull) = False"
| "truthy (Some (JBool b)) = b"
| "truthy (Some (JNum r)) = (r \<noteq> 0)"
| "truthy (Some (JStr s)) = (s \<noteq> [])"
| "truthy (Some (JDate _)) = True"
| "truthy (Some (JObject _)) = True"

text \<open>
  \<^verbatim>\<open>a === b\<close> between a stored value and a received one: primitives compare by value,
  \<^verbatim>\<open>undefined\<close> equals \<^verbatim>\<open>undefined\<close>, and an object is never the same object as one
  that arrived in another message.
\<close>

fun primitive :: "jsval \<Rightarrow> bool" where
  "primitive (JDate _) = False"
| "primitive (JObject _) = False"
| "primitive _ = True"

definition strictEq :: "jsval option \<Rightarrow> jsval option \<Rightarrow> bool" where
  "strictEq a b = (case a of None \<Rightarrow> b = None | Some x \<Rightarrow> primitive x \<and> b = Some x)"

text \<open>\<^verbatim>\<open>xs.findIndex(p)\<close>, with \<open>None\<close> for \<^verbatim>\<open>-1\<close>.\<close>

fun findIndex :: "('a \<Rightarrow> bool) \<Rightarrow> 'a list \<Rightarrow> nat option" where
  "findIndex p [] = None"
| "findIndex p (x # xs) = (if p x then Some 0 else map_option Suc (findIndex p xs))"

text \<open>\<^verbatim>\<open>new Date().getTime().toString()\<close>: the decimal digits of the clock reading.\<close>

function decimal :: "nat \<Rightarrow> string" where
  "decimal n = (if n < 10 then [''0123456789'' ! n]
                else decimal (n div 10) @ [''0123456789'' ! (n mod 10)])"
  by pat_completeness auto
termination
  by (relation "measure id") auto

declare decimal.simps [simp del]

subsection \<open>Boards (the Board model)\<close>

datatype role = Owner | Editor | Viewer

type_synonym userId = string
type_synonym boardId = string
type_synonym socketId = string

record board =
  owner :: userId
  collaborators :: "(userId \<times> role) list"
  isPublic :: bool
  boardElements :: "element list"
  version :: nat
  lastModified :: nat
  lastModifiedBy :: "userId option"
  totalEdits :: nat

text \<open>
  \<^verbatim>\<open>board.hasAccess(userId)\<close> returns \<^verbatim>\<open>{hasAccess, role}\<close>; \<open>None\<close> is
  \<^verbatim>\<open>{hasAccess: false, role: null}\<close> and \<open>Some r\<close> is \<^verbatim>\<open>{hasAccess: true, role: r}\<close>.
\<close>

definition hasAccess :: "board \<Rightarrow> userId \<Rightarrow> role option" where
  "hasAccess b u =
     (if owner b = u then Some Owner
      else case find (\<lambda>collab. fst collab = u) (collaborators b) of
             Some collaborator \<Rightarrow> Some (snd collaborator)
           | None \<Rightarrow> if isPublic b then Some Viewer else None)"

text \<open>\<^verbatim>\<open>updateLastModified\<close> without its final \<^verbatim>\<open>save()\<close>, which the handlers' model does.\<close>

definition updateLastModified :: "nat \<Rightarrow> userId \<Rightarrow> board \<Rightarrow> board" where
  "updateLastModified now u b =
     b\<lparr>lastModified := now, lastModifiedBy := Some u,
       version := version b + 1, totalEdits := totalEdits b + 1\<rparr>"

subsection \<open>Server state\<close>

record userInfo =
  user_id :: userId
  user_name :: string
  user_email :: string
  user_avatar :: string
  user_initials :: string

record socket =
  sock_id :: socketId
  sock_userId :: userId
  sock_user :: userInfo

record userData =
  socketId :: socketId
  user :: userInfo
  joinedAt :: nat
  currentBoard :: "boardId option"
  role :: "role option"

text \<open>
  \<open>activeUsers\<close> and \<open>boardRooms\<close> are the two module-level maps; a JavaScript
  \<^verbatim>\<open>Set\<close> is a duplicate-free list in insertion order. \<open>rooms\<close> is Socket.IO's own room
  membership (what \<^verbatim>\<open>socket.join\<close> and \<^verbatim>\<open>socket.leave\<close> change, and what
  \<^verbatim>\<open>to(room)\<close> reads), and \<open>boards\<close> is the boards collection of the database; the
  elements of a stored board are Mongoose subdocuments of the Board schema.

  \<open>castElement\<close> is the Mongoose library as the handlers meet it: what an element
  subdocument holds when a plain object is pushed or assigned into \<^verbatim>\<open>board.elements\<close>
  (paths cast to their schema types, defaults filled in, an \<^verbatim>\<open>_id\<close> added, fields
  outside the schema dropped), or \<open>None\<close> when a path cannot be cast. The library is not
  part of the repository, so this function is left open; it never changes.
\<close>

record server =
  activeUsers :: "userId \<rightharpoonup> userData"
  boardRooms :: "boardId \<rightharpoonup> userId list"
  rooms :: "boardId \<Rightarrow> socketId set"
  boards :: "boardId \<rightharpoonup> board"
  castElement :: "element \<Rightarrow> element option"

definition setAdd :: "'a \<Rightarrow> 'a list \<Rightarrow> 'a list" where
  "setAdd x xs = (if x \<in> set xs then xs else xs @ [x])"

datatype event =
    EvError string
  | EvErrorAction string string
  | EvConnected userInfo nat
  | EvUserJoined userInfo "role option" nat
  | EvBoardJoined boardId role "userData list"
  | EvActiveUsersUpdated "userData list"
  | EvUserLeft userId "userInfo option" nat
  | EvCanvasUpdated "element list option" string "element option" userInfo nat nat
  | EvCanvasUpdateConfirmed string "element option" nat
  | EvBoardSaved userInfo nat nat
  | EvElementCreated element userInfo nat
  | EvElementUpdated element userInfo nat
  | EvElementDeleted "jsval option" userInfo nat

text \<open>
  What a handler sends: each emission with the set of sockets it reaches.
  \<^verbatim>\<open>socket.emit\<close> reaches the sender, \<^verbatim>\<open>socket.to(room).emit\<close> the room without
  the sender, \<^verbatim>\<open>io.to(room).emit\<close> the whole room.
\<close>

type_synonym outbox = "(socketId set \<times> event) list"

definition toSender :: "socket \<Rightarrow> event \<Rightarrow> socketId set \<times> event" where
  "toSender sock ev = ({sock_id sock}, ev)"

definition toOthers :: "server \<Rightarrow> socket \<Rightarrow> boardId \<Rightarrow> event \<Rightarrow> socketId set \<times> event" where
  "toOthers s sock room ev = (rooms s room - {sock_id sock}, ev)"

definition toRoom :: "server \<Rightarrow> boardId \<Rightarrow> event \<Rightarrow> socketId set \<times> event" where
  "toRoom s room ev = (rooms s room, ev)"

definition socketJoin :: "socket \<Rightarrow> boardId \<Rightarrow> server \<Rightarrow> server" where
  "socketJoin sock room s = s\<lparr>rooms := (rooms s)(room := insert (sock_id sock) (rooms s room))\<rparr>"

definition socketLeave :: "socket \<Rightarrow> boardId \<Rightarrow> server \<Rightarrow> server" where
  "socketLeave sock room s = s\<lparr>rooms := (rooms s)(room := rooms s room - {sock_id sock})\<rparr>"

text \<open>
  \<^verbatim>\<open>Array.from(boardRooms.get(boardId)).map(userId => activeUsers.get(userId)).filter(Boolean)\<close>
\<close>

definition usersInBoard :: "server \<Rightarrow> boardId \<Rightarrow> userData list" where
  "usersInBoard s boardId =
     List.map_filter (activeUsers s) (case boardRooms s boardId of None \<Rightarrow> [] | Some us \<Rightarrow> us)"

subsection \<open>Connection, join, leave, disconnect\<close>

definition connection :: "nat \<Rightarrow> socket \<Rightarrow> server \<Rightarrow> server \<times> outbox" where
  "connection now sock s =
     (s\<lparr>activeUsers := (activeUsers s)(sock_userId sock \<mapsto>
          \<lparr>socketId = sock_id sock, user = sock_user sock, joinedAt = now,
           currentBoard = None, role = None\<rparr>)\<rparr>,
      [toSender sock (EvConnected (sock_user sock) now)])"

text \<open>
  \<^verbatim>\<open>join-board\<close>. The previous board is tested for truthiness, so an empty board id
  counts as none. When the user has no \<open>activeUsers\<close> entry, writing
  \<^verbatim>\<open>userData.currentBoard\<close> throws after \<^verbatim>\<open>socket.join\<close> and the \<^verbatim>\<open>catch\<close>
  reports the failure.
\<close>

definition join_board :: "socket \<Rightarrow> boardId \<Rightarrow> server \<Rightarrow> server \<times> outbox" where
  "join_board sock boardId s =
     (case boards s boardId of
        None \<Rightarrow> (s, [toSender sock (EvError ''Board not found'')])
      | Some board \<Rightarrow>
        (case hasAccess board (sock_userId sock) of
           None \<Rightarrow> (s, [toSender sock (EvError ''Access denied to board'')])
         | Some accessRole \<Rightarrow>
           (let s1 = (case activeUsers s (sock_userId sock) of
                        None \<Rightarrow> s
                      | Some previous \<Rightarrow>
                          (case currentBoard previous of
                             None \<Rightarrow> s
                           | Some b \<Rightarrow> if b \<noteq> [] then socketLeave sock b s else s));
                s2 = socketJoin sock boardId s1
            in case activeUsers s2 (sock_userId sock) of
                 None \<Rightarrow> (s2, [toSender sock (EvError ''Failed to join board'')])
               | Some old \<Rightarrow>
                 (let userData = old\<lparr>currentBoard := Some boardId, role := Some accessRole\<rparr>;
                      s3 = s2\<lparr>activeUsers := (activeUsers s2)(sock_userId sock \<mapsto> userData)\<rparr>;
                      s4 = s3\<lparr>boardRooms := (boardRooms s3)(boardId \<mapsto>
                              setAdd (sock_userId sock)
                                (case boardRooms s3 boardId of None \<Rightarrow> [] | Some us \<Rightarrow> us))\<rparr>;
                      users = usersInBoard s4 boardId
                  in (s4,
                      [toOthers s4 sock boardId
                         (EvUserJoined (user userData) (role userData) (joinedAt userData)),
                       toSender sock (EvBoardJoined boardId accessRole users),
                       toRoom s4 boardId (EvActiveUsersUpdated users)])))))"

definition handleUserLeaveBoard :: "nat \<Rightarrow> socket \<Rightarrow> boardId \<Rightarrow> server \<Rightarrow> server \<times> outbox" where
  "handleUserLeaveBoard now sock boardId s =
     (let s1 = (case boardRooms s boardId of
                  None \<Rightarrow> s
                | Some us \<Rightarrow>
                    (let us' = removeAll (sock_userId sock) us
                     in if us' = [] then s\<lparr>boardRooms := (boardRooms s)(boardId := None)\<rparr>
                        else s\<lparr>boardRooms := (boardRooms s)(boardId \<mapsto> us')\<rparr>));
          left = toOthers s1 sock boardId
                   (EvUserLeft (sock_userId sock)
                      (map_option user (activeUsers s1 (sock_userId sock))) now);
          s2 = socketLeave sock boardId s1;
          updated = (if boardRooms s2 boardId \<noteq> None
                     then [toOthers s2 sock boardId (EvActiveUsersUpdated (usersInBoard s2 boardId))]
                     else []);
          s3 = (case activeUsers s2 (sock_userId sock) of
                  None \<Rightarrow> s2
                | Some userData \<Rightarrow>
                    s2\<lparr>activeUsers := (activeUsers s2)(sock_userId sock \<mapsto>
                                          userData\<lparr>currentBoard := None\<rparr>)\<rparr>)
      in (s3, left # updated))"

definition leave_board :: "nat \<Rightarrow> socket \<Rightarrow> server \<Rightarrow> server \<times> outbox" where
  "leave_board now sock s =
     (case activeUsers s (sock_userId sock) of
        None \<Rightarrow> (s, [])
      | Some userData \<Rightarrow>
          (case currentBoard userData of
             None \<Rightarrow> (s, [])
           | Some b \<Rightarrow> if b \<noteq> [] then handleUserLeaveBoard now sock b s else (s, [])))"

definition disconnect :: "nat \<Rightarrow> socket \<Rightarrow> server \<Rightarrow> server \<times> outbox" where
  "disconnect now sock s =
     (let (s1, out) = leave_board now sock s
      in (s1\<lparr>activeUsers := (activeUsers s1)(sock_userId sock := None)\<rparr>, out))"

subsection \<open>Mutation handlers\<close>

text \<open>The object literals the handlers build.\<close>

definition newElement :: "nat \<Rightarrow> userId \<Rightarrow> element \<Rightarrow> element" where
  "newElement now u element =
     element(''id'' \<mapsto> (case element ''id'' of
                          None \<Rightarrow> JStr (decimal now)
                        | Some v \<Rightarrow> if truthy (Some v) then v else JStr (decimal now)),
             ''createdBy'' \<mapsto> JStr u,
             ''createdAt'' \<mapsto> JDate now,
             ''updatedAt'' \<mapsto> JDate now)"

text \<open>
  \<^verbatim>\<open>{...board.elements[elementIndex], ...element, updatedAt, lastModifiedBy}\<close>. The
  stored element is a subdocument: its own enumerable properties are Mongoose's internals,
  its schema fields are accessors, so the spread of it contributes no element field and
  the object holds what the message sent and the two stamps.
\<close>

definition mergedElement :: "nat \<Rightarrow> userId \<Rightarrow> element \<Rightarrow> element" where
  "mergedElement now u element =
     element(''updatedAt'' \<mapsto> JDate now, ''lastModifiedBy'' \<mapsto> JStr u)"

definition savedElement :: "nat \<Rightarrow> userId \<Rightarrow> element \<Rightarrow> element" where
  "savedElement now u el =
     el(''updatedAt'' \<mapsto> JDate now,
        ''lastModifiedBy'' \<mapsto> (case el ''lastModifiedBy'' of
                                  None \<Rightarrow> JStr u
                                | Some v \<Rightarrow> if truthy (Some v) then v else JStr u))"

text \<open>
  The validators of the element schema in the Board model, on a subdocument: \<open>type\<close> is
  required and in its enum, \<open>x\<close> and \<open>y\<close> are required numbers, and \<open>textAlign\<close>, when
  set, is in its enum. The other paths carry no validator.
\<close>

definition schemaValid :: "element \<Rightarrow> bool" where
  "schemaValid d \<longleftrightarrow>
     (case d ''type'' of
        Some (JStr t) \<Rightarrow>
          t \<in> {''text'', ''sticky'', ''shape'', ''line'', ''arrow'', ''pen'', ''freehand''}
      | _ \<Rightarrow> False) \<and>
     (case d ''x'' of Some (JNum v) \<Rightarrow> True | _ \<Rightarrow> False) \<and>
     (case d ''y'' of Some (JNum v) \<Rightarrow> True | _ \<Rightarrow> False) \<and>
     (case d ''textAlign'' of
        None \<Rightarrow> True
      | Some JNull \<Rightarrow> True
      | Some (JStr a) \<Rightarrow> a \<in> {''left'', ''center'', ''right''}
      | _ \<Rightarrow> False)"

text \<open>
  What a handler's attempt to change the board comes to: an exception that its
  \<^verbatim>\<open>catch\<close> reports, nothing to write, or the board that was written.
\<close>

datatype attempt = Threw | Unchanged | Saved board

text \<open>
  \<^verbatim>\<open>await board.updateLastModified(userId)\<close>: the counters are bumped and the
  document saved. Saving validates every element subdocument and rejects when one fails;
  the rest of the board document is taken to be valid and the write itself not to fail.
\<close>

definition persist :: "nat \<Rightarrow> userId \<Rightarrow> board \<Rightarrow> attempt" where
  "persist now u b =
     (let b' = updateLastModified now u b
      in if list_all schemaValid (boardElements b') then Saved b' else Threw)"

definition saveBoard :: "boardId \<Rightarrow> board \<Rightarrow> server \<Rightarrow> server" where
  "saveBoard boardId b s = s\<lparr>boards := (boards s)(boardId \<mapsto> b)\<rparr>"

record canvasUpdateData =
  cu_boardId :: boardId
  cu_elements :: "element list option"
  cu_action :: string
  cu_element :: "element option"

text \<open>
  The four persistent branches of \<^verbatim>\<open>canvas-update\<close>; \<open>Unchanged\<close> when no branch
  ran or the update found no element.
\<close>

definition canvasAction ::
  "(element \<Rightarrow> element option) \<Rightarrow> nat \<Rightarrow> userId \<Rightarrow> canvasUpdateData \<Rightarrow> board \<Rightarrow> attempt" where
  "canvasAction cast now u data b =
     (if cu_action data = ''add'' \<and> cu_element data \<noteq> None then
        (case cu_element data of
           None \<Rightarrow> Unchanged
         | Some element \<Rightarrow>
             (case cast (newElement now u element) of
                None \<Rightarrow> Threw
              | Some doc \<Rightarrow> persist now u (b\<lparr>boardElements := boardElements b @ [doc]\<rparr>)))
      else if cu_action data = ''update'' \<and> cu_element data \<noteq> None then
        (case cu_element data of
           None \<Rightarrow> Unchanged
         | Some element \<Rightarrow>
             (case findIndex (\<lambda>el. strictEq (el ''id'') (element ''id'')) (boardElements b) of
                None \<Rightarrow> Unchanged
              | Some elementIndex \<Rightarrow>
                  (case cast (mergedElement now u element) of
                     None \<Rightarrow> Threw
                   | Some doc \<Rightarrow>
                       persist now u
                         (b\<lparr>boardElements := (boardElements b)[elementIndex := doc]\<rparr>))))
      else if cu_action data = ''delete'' \<and> cu_element data \<noteq> None then
        (case cu_element data of
           None \<Rightarrow> Unchanged
         | Some element \<Rightarrow>
             persist now u
               (b\<lparr>boardElements :=
                    filter (\<lambda>el. \<not> strictEq (el ''id'') (element ''id'')) (boardElements b)\<rparr>))
      else if cu_action data = ''batch'' \<and> cu_elements data \<noteq> None then
        (case cu_elements data of
           None \<Rightarrow> Unchanged
         | Some els \<Rightarrow>
             (case those (map (\<lambda>el. cast (savedElement now u el)) els) of
                None \<Rightarrow> Threw
              | Some docs \<Rightarrow> persist now u (b\<lparr>boardElements := docs\<rparr>)))
      else Unchanged)"

definition canvas_update :: "nat \<Rightarrow> socket \<Rightarrow> canvasUpdateData \<Rightarrow> server \<Rightarrow> server \<times> outbox" where
  "canvas_update now sock data s =
     (case activeUsers s (sock_userId sock) of
        None \<Rightarrow> (s, [toSender sock (EvError ''Not in this board'')])
      | Some userData \<Rightarrow>
        if currentBoard userData \<noteq> Some (cu_boardId data)
        then (s, [toSender sock (EvError ''Not in this board'')])
        else
          (case boards s (cu_boardId data) of
             None \<Rightarrow> (s, [toSender sock (EvError ''Board not found'')])
           | Some board \<Rightarrow>
             (let access = hasAccess board (sock_userId sock)
              in if access = None \<or> (access = Some Viewer \<and> cu_action data \<noteq> ''cursor'')
                 then (s, [toSender sock (EvError ''No edit permission for this board'')])
                 else
                   (case canvasAction (castElement s) now (sock_userId sock) data board of
                      Threw \<Rightarrow>
                        (s, [toSender sock
                               (EvErrorAction ''Failed to update canvas'' (cu_action data))])
                    | Unchanged \<Rightarrow>
                        (s,
                         [toOthers s sock (cu_boardId data)
                            (EvCanvasUpdated
                               (if cu_action data = ''batch'' then cu_elements data
                                else Some (boardElements board))
                               (cu_action data) (cu_element data) (user userData) now
                               (version board)),
                          toSender sock
                            (EvCanvasUpdateConfirmed (cu_action data) (cu_element data) now)])
                    | Saved board' \<Rightarrow>
                        (let s' = saveBoard (cu_boardId data) board' s
                         in (s',
                             [toOthers s' sock (cu_boardId data)
                                (EvCanvasUpdated
                                   (if cu_action data = ''batch'' then cu_elements data
                                    else Some (boardElements board'))
                                   (cu_action data) (cu_element data) (user userData) now
                                   (version board')),
                              toSender sock
                                (EvCanvasUpdateConfirmed (cu_action data) (cu_element data)
                                   now)]))))))"

definition board_save ::
  "nat \<Rightarrow> socket \<Rightarrow> boardId \<Rightarrow> element list option \<Rightarrow> server \<Rightarrow> server \<times> outbox" where
  "board_save now sock boardId elems s =
     (case activeUsers s (sock_userId sock) of
        None \<Rightarrow> (s, [toSender sock (EvError ''Not in this board'')])
      | Some userData \<Rightarrow>
        if currentBoard userData \<noteq> Some boardId
        then (s, [toSender sock (EvError ''Not in this board'')])
        else
          (let saved = (case elems of
                          None \<Rightarrow> Unchanged
                        | Some els \<Rightarrow>
                            (case boards s boardId of
                               None \<Rightarrow> Unchanged
                             | Some board \<Rightarrow>
                                 (let access = hasAccess board (sock_userId sock)
                                  in if access \<noteq> None \<and> access \<noteq> Some Viewer
                                     then (case those (map (\<lambda>element. castElement s
                                                       (savedElement now (sock_userId sock) element))
                                                  els) of
                                             None \<Rightarrow> Threw
                                           | Some docs \<Rightarrow>
                                               persist now (sock_userId sock)
                                                 (board\<lparr>boardElements := docs\<rparr>))
                                     else Unchanged)))
           in case saved of
                Threw \<Rightarrow> (s, [toSender sock (EvError ''Failed to save board'')])
              | Unchanged \<Rightarrow>
                  (s, [toOthers s sock boardId
                         (EvBoardSaved (user userData)
                            (case elems of None \<Rightarrow> 0 | Some els \<Rightarrow> length els) now)])
              | Saved board' \<Rightarrow>
                  (let s' = saveBoard boardId board' s
                   in (s', [toOthers s' sock boardId
                              (EvBoardSaved (user userData)
                                 (case elems of None \<Rightarrow> 0 | Some els \<Rightarrow> length els)
                                 now)]))))"

text \<open>
  \<^verbatim>\<open>element-create\<close>. A message without an element makes \<^verbatim>\<open>element.id\<close> throw; a
  failed cast or validation makes the save throw; the \<^verbatim>\<open>catch\<close> reports either. What is
  broadcast is the object literal, what is stored its subdocument.
\<close>

definition element_create ::
  "nat \<Rightarrow> socket \<Rightarrow> boardId \<Rightarrow> element option \<Rightarrow> server \<Rightarrow> server \<times> outbox" where
  "element_create now sock boardId element s =
     (case activeUsers s (sock_userId sock) of
        None \<Rightarrow> (s, [toSender sock (EvError ''Not in this board'')])
      | Some userData \<Rightarrow>
        if currentBoard userData \<noteq> Some boardId
        then (s, [toSender sock (EvError ''Not in this board'')])
        else
          (case boards s boardId of
             None \<Rightarrow> (s, [toSender sock (EvError ''Board not found'')])
           | Some board \<Rightarrow>
             (let access = hasAccess board (sock_userId sock)
              in if access = None \<or> access = Some Viewer
                 then (s, [toSender sock (EvError ''No edit permission'')])
                 else
                   (case element of
                      None \<Rightarrow> (s, [toSender sock (EvError ''Failed to create element'')])
                    | Some el \<Rightarrow>
                        (let created = newElement now (sock_userId sock) el
                         in case (case castElement s created of
                                    None \<Rightarrow> Threw
                                  | Some doc \<Rightarrow>
                                      persist now (sock_userId sock)
                                        (board\<lparr>boardElements := boardElements board @ [doc]\<rparr>)) of
                              Saved board' \<Rightarrow>
                                (let s' = saveBoard boardId board' s
                                 in (s', [toRoom s' boardId
                                            (EvElementCreated created (user userData) now)]))
                            | _ \<Rightarrow>
                                (s, [toSender sock (EvError ''Failed to create element'')]))))))"

text \<open>
  \<^verbatim>\<open>element-update\<close>. Without an element in the message the \<^verbatim>\<open>findIndex\<close> callback
  throws on the first stored element; on an empty board it is never called. The event
  carries \<^verbatim>\<open>board.elements[elementIndex]\<close>, the subdocument.
\<close>

definition element_update ::
  "nat \<Rightarrow> socket \<Rightarrow> boardId \<Rightarrow> element option \<Rightarrow> server \<Rightarrow> server \<times> outbox" where
  "element_update now sock boardId element s =
     (case activeUsers s (sock_userId sock) of
        None \<Rightarrow> (s, [toSender sock (EvError ''Not in this board'')])
      | Some userData \<Rightarrow>
        if currentBoard userData \<noteq> Some boardId
        then (s, [toSender sock (EvError ''Not in this board'')])
        else
          (case boards s boardId of
             None \<Rightarrow> (s, [toSender sock (EvError ''Board not found'')])
           | Some board \<Rightarrow>
             (let access = hasAccess board (sock_userId sock)
              in if access = None \<or> access = Some Viewer
                 then (s, [toSender sock (EvError ''No edit permission'')])
                 else
                   (case element of
                      None \<Rightarrow>
                        if boardElements board = []
                        then (s, [toSender sock (EvError ''Element not found'')])
                        else (s, [toSender sock (EvError ''Failed to update element'')])
                    | Some el \<Rightarrow>
                        (case findIndex (\<lambda>e. strictEq (e ''id'') (el ''id''))
                                (boardElements board) of
                           None \<Rightarrow> (s, [toSender sock (EvError ''Element not found'')])
                         | Some elementIndex \<Rightarrow>
                             (case castElement s (mergedElement now (sock_userId sock) el) of
                                None \<Rightarrow>
                                  (s, [toSender sock (EvError ''Failed to update element'')])
                              | Some doc \<Rightarrow>
                                  (case persist now (sock_userId sock)
                                          (board\<lparr>boardElements :=
                                               (boardElements board)[elementIndex := doc]\<rparr>) of
                                     Saved board' \<Rightarrow>
                                       (let s' = saveBoard boardId board' s
                                        in (s', [toRoom s' boardId
                                                   (EvElementUpdated doc (user userData) now)]))
                                   | _ \<Rightarrow>
                                       (s, [toSender sock
                                              (EvError ''Failed to update element'')]))))))))"

definition element_delete ::
  "nat \<Rightarrow> socket \<Rightarrow> boardId \<Rightarrow> jsval option \<Rightarrow> server \<Rightarrow> server \<times> outbox" where
  "element_delete now sock boardId elementId s =
     (case activeUsers s (sock_userId sock) of
        None \<Rightarrow> (s, [toSender sock (EvError ''Not in this board'')])
      | Some userData \<Rightarrow>
        if currentBoard userData \<noteq> Some boardId
        then (s, [toSender sock (EvError ''Not in this board'')])
        else
          (case boards s boardId of
             None \<Rightarrow> (s, [toSender sock (EvError ''Board not found'')])
           | Some board \<Rightarrow>
             (let access = hasAccess board (sock_userId sock)
              in if access = None \<or> access = Some Viewer
                 then (s, [toSender sock (EvError ''No edit permission'')])
                 else
                   (let elementExists = list_ex (\<lambda>el. strictEq (el ''id'') elementId)
                                          (boardElements board)
                    in if elementExists
                       then
                         (case persist now (sock_userId sock)
                                 (board\<lparr>boardElements :=
                                      filter (\<lambda>el. \<not> strictEq (el ''id'') elementId)
                                        (boardElements board)\<rparr>) of
                            Saved board' \<Rightarrow>
                              (let s' = saveBoard boardId board' s
                               in (s', [toRoom s' boardId
                                          (EvElementDeleted elementId (user userData) now)]))
                          | _ \<Rightarrow> (s, [toSender sock (EvError ''Failed to delete element'')]))
                       else (s, [toSender sock (EvError ''Element not found'')])))))"

subsection \<open>A small server state for the worked examples\<close>

definition userNamed :: "string \<Rightarrow> userInfo" where
  "userNamed n = \<lparr>user_id = n, user_name = n, user_email = n @ ''@example.org'',
                  user_avatar = [], user_initials = take 1 n\<rparr>"

definition socketOf :: "socketId \<Rightarrow> string \<Rightarrow> socket" where
  "socketOf i n = \<lparr>sock_id = i, sock_userId = n, sock_user = userNamed n\<rparr>"

definition sticky :: element where
  "sticky = [''id'' \<mapsto> JStr ''e1'', ''type'' \<mapsto> JStr ''sticky'',
             ''x'' \<mapsto> JNum 100, ''y'' \<mapsto> JNum 100]"

text \<open>
  A stand-in for the library in the examples: a numeric id becomes its decimal string, as
  the schema's \<^verbatim>\<open>id: String\<close> asks, and everything else is kept.
\<close>

definition demoCast :: "element \<Rightarrow> element option" where
  "demoCast el =
     Some (case el ''id'' of
             Some (JNum v) \<Rightarrow> el(''id'' \<mapsto> JStr (decimal (nat \<lfloor>v\<rfloor>)))
           | _ \<Rightarrow> el)"

definition demoBoard :: board where
  "demoBoard = \<lparr>owner = ''alice'', collaborators = [(''bob'', Editor), (''carol'', Viewer)],
                 isPublic = False, boardElements = [sticky], version = 1, lastModified = 0,
                 lastModifiedBy = None, totalEdits = 0\<rparr>"

definition member :: "socketId \<Rightarrow> string \<Rightarrow> role \<Rightarrow> userData" where
  "member i n r = \<lparr>socketId = i, user = userNamed n, joinedAt = 1,
                   currentBoard = Some ''b1'', role = Some r\<rparr>"

text \<open>Alice (owner), Bob (editor) and Carol (viewer) have all joined board \<open>b1\<close>.\<close>

definition demoServer :: server where
  "demoServer =
     \<lparr>activeUsers = [''alice'' \<mapsto> member ''s1'' ''alice'' Owner,
                     ''bob'' \<mapsto> member ''s2'' ''bob'' Editor,
                     ''carol'' \<mapsto> member ''s3'' ''carol'' Viewer],
      boardRooms = [''b1'' \<mapsto> [''alice'', ''bob'', ''carol'']],
      rooms = (\<lambda>_. {})(''b1'' := {''s1'', ''s2'', ''s3''}),
      boards = [''b1'' \<mapsto> demoBoard],
      castElement = demoCast\<rparr>"

definition memo :: element where
  "memo = [''type'' \<mapsto> JStr ''sticky'', ''x'' \<mapsto> JNum 100, ''y'' \<mapsto> JNum 100]"

text \<open>The same element sent with a numeric id, as the client's \<^verbatim>\<open>Date.now()\<close> gives it.\<close>

definition numbered :: element where
  "numbered = memo(''id'' \<mapsto> JNum 7)"

text \<open>
  A server on which nobody is connected yet, with two boards Alice owns; then Alice
  connects, joins \<open>b1\<close> and joins \<open>b2\<close>, and afterwards Bob connects and joins \<open>b1\<close>.
\<close>

definition emptyServer :: server where
  "emptyServer = \<lparr>activeUsers = Map.empty, boardRooms = Map.empty, rooms = (\<lambda>_. {}),
                   boards = [''b1'' \<mapsto> demoBoard, ''b2'' \<mapsto> demoBoard],
                   castElement = demoCast\<rparr>"

definition aliceOnB1 :: server where
  "aliceOnB1 = fst (join_board (socketOf ''s1'' ''alice'') ''b1''
                      (fst (connection 1 (socketOf ''s1'' ''alice'') emptyServer)))"

definition aliceOnB2 :: server where
  "aliceOnB2 = fst (join_board (socketOf ''s1'' ''alice'') ''b2'' aliceOnB1)"

definition bobJoinsB1 :: "server \<times> outbox" where
  "bobJoinsB1 = join_board (socketOf ''s2'' ''bob'') ''b1''
                  (fst (connection 2 (socketOf ''s2'' ''bob'') aliceOnB2))"

section \<open>History manager (client)\<close>

text \<open>
  The canvas page keeps three pieces of React state that the history functions touch: the
  live element array, the list of snapshots and the pointer into it
  (\<^verbatim>\<open>useState([])\<close>, \<^verbatim>\<open>useState([])\<close>, \<^verbatim>\<open>useState(-1)\<close>).
  Snapshots are values here, so the JSON round trip
  \<^verbatim>\<open>JSON.parse(JSON.stringify(els))\<close> and the spread \<^verbatim>\<open>[...els]\<close> are both the
  array itself; what the elements are plays no role and stays a type parameter.
\<close>

record 'e canvas =
  elements :: "'e list"
  history :: "'e list list"
  historyIndex :: int

definition initialCanvas :: "'e canvas" where
  "initialCanvas = \<lparr>elements = [], history = [], historyIndex = - 1\<rparr>"

text \<open>
  A handler is a function created by one render of the page: the variables
  \<^verbatim>\<open>elements\<close>, \<^verbatim>\<open>history\<close> and \<^verbatim>\<open>historyIndex\<close> in its body are the state that
  render showed, while the argument of a state updater (\<^verbatim>\<open>prev\<close>, \<^verbatim>\<open>idx\<close>) is the state
  at the time of the call. Every handler below therefore takes both: \<open>r\<close>, the state of
  the render that created it, and \<open>s\<close>, the state it is called in. For a handler of the
  render that is on screen the two are the same.
\<close>

definition atCurrentRender :: "('s \<Rightarrow> 's \<Rightarrow> 'a) \<Rightarrow> 's \<Rightarrow> 'a" where
  "atCurrentRender handler s = handler s s"

text \<open>\<^verbatim>\<open>xs.slice(0, n)\<close>: a negative end counts from the end of the array.\<close>

definition slice0 :: "'a list \<Rightarrow> int \<Rightarrow> 'a list" where
  "slice0 xs n = (if n < 0 then take (nat (int (length xs) + n)) xs else take (nat n) xs)"

text \<open>
  \<^verbatim>\<open>history[i]\<close> followed by the copy: an index outside the array reads
  \<^verbatim>\<open>undefined\<close>, on which \<^verbatim>\<open>JSON.parse(JSON.stringify(undefined))\<close> and
  \<^verbatim>\<open>[...undefined]\<close> both throw; \<open>None\<close> is that exception.
\<close>

definition snapshotAt :: "'e list list \<Rightarrow> int \<Rightarrow> 'e list option" where
  "snapshotAt h i = (if 0 \<le> i \<and> i < int (length h) then Some (h ! nat i) else None)"

subsection \<open>CanvasPageFixed.jsx\<close>

text \<open>
  \<^verbatim>\<open>recordHistory\<close> trims \<^verbatim>\<open>prev\<close>, the history at the time of the call, at the
  pointer of its render, and advances the pointer at the time of the call.
\<close>

definition recordHistory :: "'e list \<Rightarrow> 'e canvas \<Rightarrow> 'e canvas \<Rightarrow> 'e canvas" where
  "recordHistory els r s =
     (let trimmed = slice0 (history s) (historyIndex r + 1);
          next = trimmed @ [els]
      in s\<lparr>history := (if length next > 50 then tl next else next),
            historyIndex := min (historyIndex s + 1) 49\<rparr>)"

text \<open>\<^verbatim>\<open>undo\<close> and \<^verbatim>\<open>redo\<close> read the snapshot from the history of their render.\<close>

definition undo :: "'e canvas \<Rightarrow> 'e canvas \<Rightarrow> 'e canvas option" where
  "undo r s =
     (if historyIndex s \<le> 0 then Some (s\<lparr>historyIndex := 0\<rparr>)
      else (let newIdx = historyIndex s - 1
            in case snapshotAt (history r) newIdx of
                 None \<Rightarrow> None
               | Some snap \<Rightarrow> Some (s\<lparr>elements := snap, historyIndex := newIdx\<rparr>)))"

definition redo :: "'e canvas \<Rightarrow> 'e canvas \<Rightarrow> 'e canvas option" where
  "redo r s =
     (if historyIndex s \<ge> int (length (history r)) - 1 then Some s
      else (let newIdx = historyIndex s + 1
            in case snapshotAt (history r) newIdx of
                 None \<Rightarrow> None
               | Some snap \<Rightarrow> Some (s\<lparr>elements := snap, historyIndex := newIdx\<rparr>)))"

text \<open>
  A committed mutation, as \<^verbatim>\<open>addElement\<close> and \<^verbatim>\<open>deleteElementById\<close> do it:
  \<^verbatim>\<open>setElements(newElements); recordHistory(newElements)\<close>. The pointer-up commit
  \<^verbatim>\<open>recordHistory(elements)\<close> after a drag, resize or stroke is the same with the array
  on screen.
\<close>

definition commitMutation :: "'e list \<Rightarrow> 'e canvas \<Rightarrow> 'e canvas \<Rightarrow> 'e canvas" where
  "commitMutation els r s = recordHistory els r (s\<lparr>elements := els\<rparr>)"

text \<open>
  \<^verbatim>\<open>duplicateElement\<close> and \<^verbatim>\<open>applyColor\<close> change the array inside an updater and
  then call \<^verbatim>\<open>recordHistory(elements)\<close> with the array of their render, the one from
  before the change.
\<close>

definition commitRecordingRender :: "'e list \<Rightarrow> 'e canvas \<Rightarrow> 'e canvas \<Rightarrow> 'e canvas" where
  "commitRecordingRender els r s = recordHistory (elements r) r (s\<lparr>elements := els\<rparr>)"

subsection \<open>The useCanvasState hook\<close>

text \<open>The hook uses no updater: everything it reads is the state of its render.\<close>

definition useCanvasState_recordHistory :: "'e list \<Rightarrow> 'e canvas \<Rightarrow> 'e canvas \<Rightarrow> 'e canvas" where
  "useCanvasState_recordHistory newElements r s =
     (let newHistory = slice0 (history r) (historyIndex r + 1) @ [newElements]
      in s\<lparr>history := newHistory, historyIndex := int (length newHistory) - 1\<rparr>)"

definition useCanvasState_undo :: "'e canvas \<Rightarrow> 'e canvas \<Rightarrow> 'e canvas option" where
  "useCanvasState_undo r s =
     (if historyIndex r > 0 then
        (let prevIndex = historyIndex r - 1
         in case snapshotAt (history r) prevIndex of
              None \<Rightarrow> None
            | Some snap \<Rightarrow> Some (s\<lparr>elements := snap, historyIndex := prevIndex\<rparr>))
      else Some s)"

definition useCanvasState_redo :: "'e canvas \<Rightarrow> 'e canvas \<Rightarrow> 'e canvas option" where
  "useCanvasState_redo r s =
     (if historyIndex r < int (length (history r)) - 1 then
        (let nextIndex = historyIndex r + 1
         in case snapshotAt (history r) nextIndex of
              None \<Rightarrow> None
            | Some snap \<Rightarrow> Some (s\<lparr>elements := snap, historyIndex := nextIndex\<rparr>))
      else Some s)"

definition useCanvasState_commit :: "'e list \<Rightarrow> 'e canvas \<Rightarrow> 'e canvas \<Rightarrow> 'e canvas" where
  "useCanvasState_commit els r s = useCanvasState_recordHistory els r (s\<lparr>elements := els\<rparr>)"

text \<open>Pressing undo or redo \<open>n\<close> times; an exception stops the sequence.\<close>

fun repeatedly :: "nat \<Rightarrow> ('s \<Rightarrow> 's option) \<Rightarrow> 's \<Rightarrow> 's option" where
  "repeatedly 0 f s = Some s"
| "repeatedly (Suc n) f s = (case f s of None \<Rightarrow> None | Some s' \<Rightarrow> repeatedly n f s')"

subsection \<open>Well-formed histories\<close>

text \<open>
  The pointer either addresses a snapshot or is \<open>-1\<close> on the empty history the page
  starts with.
\<close>

definition pointerValid :: "'e canvas \<Rightarrow> bool" where
  "pointerValid s \<longleftrightarrow>
     (history s = [] \<and> historyIndex s = - 1) \<or>
     (0 \<le> historyIndex s \<and> historyIndex s < int (length (history s)))"

text \<open>Fifty committed mutations, the arrays \<open>[1]\<close> to \<open>[50]\<close>.\<close>

definition fiftyMutations :: "nat list list" where
  "fiftyMutations = map (\<lambda>i. [i]) [1..<51]"

section \<open>Sync bridge (client)\<close>

text \<open>
  The three listeners the canvas page registers for inbound element events. Each runs
  inside \<^verbatim>\<open>setElements(prev => ...)\<close> and, when it builds a new array, records it in the
  history before returning it. They are registered on the socket as they are, in an effect
  that runs when the connection is established, so \<open>r\<close> is the state of that render and
  the argument is the payload of the server's event.
\<close>

definition handleElementCreate :: "element \<Rightarrow> element canvas \<Rightarrow> element canvas \<Rightarrow> element canvas" where
  "handleElementCreate element r s =
     (case find (\<lambda>el. strictEq (el ''id'') (element ''id'')) (elements s) of
        Some exists \<Rightarrow> s
      | None \<Rightarrow> commitMutation (elements s @ [element]) r s)"

definition handleElementUpdate :: "element \<Rightarrow> element canvas \<Rightarrow> element canvas \<Rightarrow> element canvas" where
  "handleElementUpdate updatedElement r s =
     commitMutation
       (map (\<lambda>el. if strictEq (el ''id'') (updatedElement ''id'') then el ++ updatedElement else el)
          (elements s)) r s"

definition handleElementDelete :: "jsval option \<Rightarrow> element canvas \<Rightarrow> element canvas \<Rightarrow> element canvas" where
  "handleElementDelete elementId r s =
     commitMutation (filter (\<lambda>el. \<not> strictEq (el ''id'') elementId) (elements s)) r s"

text \<open>
  The payloads the server sends: \<^verbatim>\<open>element-created\<close> carries
  \<^verbatim>\<open>{element, createdBy, timestamp}\<close> and \<^verbatim>\<open>element-deleted\<close> carries
  \<^verbatim>\<open>{elementId, deletedBy, timestamp}\<close>. The element itself and the user are nested
  objects; neither payload has an \<^verbatim>\<open>id\<close> of its own.
\<close>

definition elementCreatedPayload :: element where
  "elementCreatedPayload =
     [''element'' \<mapsto> JObject 0, ''createdBy'' \<mapsto> JObject 1,
      ''timestamp'' \<mapsto> JStr ''2026-01-01T00:00:00.000Z'']"

definition elementDeletedPayload :: jsval where
  "elementDeletedPayload = JObject 2"

text \<open>A page that has added the element \<open>sticky\<close> locally since it connected.\<close>

definition localCanvas :: "element canvas" where
  "localCanvas = \<lparr>elements = [sticky], history = [[sticky]], historyIndex = 0\<rparr>"

section \<open>Hit testing (client, element utilities)\<close>

text \<open>
  The fields the hit test and the drawing handlers read from an element; the id is the
  clock reading \<^verbatim>\<open>Date.now()\<close> at creation. JavaScript numbers are taken as reals, so
  rounding of doubles is not part of this model. A field an element type does not carry
  is never read for that type and is \<open>0\<close> or \<open>[]\<close> here.
\<close>

type_synonym point = "real \<times> real"

record shape =
  el_id :: nat
  el_type :: string
  el_x :: real
  el_y :: real
  el_width :: real
  el_height :: real
  el_x2 :: real
  el_y2 :: real
  el_points :: "point list"

definition distanceToLine :: "real \<Rightarrow> real \<Rightarrow> real \<Rightarrow> real \<Rightarrow> real \<Rightarrow> real \<Rightarrow> real" where
  "distanceToLine px py x1 y1 x2 y2 =
     (let A = px - x1; B = py - y1; C = x2 - x1; D = y2 - y1;
          dot = A * C + B * D;
          lenSq = C * C + D * D
      in if lenSq = 0 then sqrt (A * A + B * B)
         else (let param = dot / lenSq;
                   xx = (if param < 0 then x1 else if param > 1 then x2 else x1 + param * C);
                   yy = (if param < 0 then y1 else if param > 1 then y2 else y1 + param * D);
                   dx = px - xx;
                   dy = py - yy
               in sqrt (dx * dx + dy * dy)))"

text \<open>
  The inner loop over a freehand path,
  \<^verbatim>\<open>for (j = 0; j < points.length - 1; j++)\<close>, on the remaining points.
\<close>

fun nearPath :: "real \<Rightarrow> real \<Rightarrow> point list \<Rightarrow> bool" where
  "nearPath x y (p1 # p2 # ps) =
     (if distanceToLine x y (fst p1) (snd p1) (fst p2) (snd p2) < 10 then True
      else nearPath x y (p2 # ps))"
| "nearPath x y ps = False"

text \<open>
  The outer loop \<^verbatim>\<open>for (i = elements.length - 1; i >= 0; i--)\<close>; the argument
  \<open>Suc i\<close> is the number of elements still to look at.
\<close>

fun scanDown :: "shape list \<Rightarrow> real \<Rightarrow> real \<Rightarrow> nat \<Rightarrow> shape option" where
  "scanDown els x y 0 = None"
| "scanDown els x y (Suc i) =
     (let element = els ! i
      in if el_type element = ''line'' \<or> el_type element = ''arrow'' then
           (if distanceToLine x y (el_x element) (el_y element) (el_x2 element) (el_y2 element) < 10
            then Some element else scanDown els x y i)
         else if el_type element = ''freehand'' then
           (if nearPath x y (el_points element) then Some element else scanDown els x y i)
         else
           (if x \<ge> el_x element \<and> x \<le> el_x element + el_width element \<and>
               y \<ge> el_y element \<and> y \<le> el_y element + el_height element
            then Some element else scanDown els x y i))"

definition findElementAtPosition :: "shape list \<Rightarrow> real \<Rightarrow> real \<Rightarrow> shape option" where
  "findElementAtPosition els x y = scanDown els x y (length els)"

subsection \<open>What the specification calls a hit\<close>

text \<open>
  The point-to-segment distance: the least Euclidean distance from \<open>p\<close> to a point
  \<open>a + t (b - a)\<close>, \<open>0 \<le> t \<le> 1\<close>, of the segment.
\<close>

definition segmentDistance :: "point \<Rightarrow> point \<Rightarrow> point \<Rightarrow> real" where
  "segmentDistance p a b =
     Inf {sqrt ((fst p - (fst a + t * (fst b - fst a)))\<^sup>2 + (snd p - (snd a + t * (snd b - snd a)))\<^sup>2)
          | t. 0 \<le> t \<and> t \<le> 1}"

definition isHit :: "real \<Rightarrow> real \<Rightarrow> shape \<Rightarrow> bool" where
  "isHit x y e =
     (if el_type e = ''line'' \<or> el_type e = ''arrow'' then
        segmentDistance (x, y) (el_x e, el_y e) (el_x2 e, el_y2 e) < 10
      else if el_type e = ''freehand'' then
        (\<exists>j. Suc j < length (el_points e) \<and>
             segmentDistance (x, y) (el_points e ! j) (el_points e ! Suc j) < 10)
      else el_x e \<le> x \<and> x \<le> el_x e + el_width e \<and> el_y e \<le> y \<and> y \<le> el_y e + el_height e)"

definition box :: shape where
  "box = \<lparr>el_id = 1, el_type = ''shape'', el_x = 0, el_y = 0, el_width = 100, el_height = 100,
           el_x2 = 0, el_y2 = 0, el_points = []\<rparr>"

definition wire :: shape where
  "wire = \<lparr>el_id = 2, el_type = ''line'', el_x = 0, el_y = 0, el_width = 100, el_height = 1,
            el_x2 = 100, el_y2 = 0, el_points = []\<rparr>"

section \<open>Freehand drawing (client, canvas page)\<close>

text \<open>
  A pointer sample is \<^verbatim>\<open>(clientX, clientY)\<close>; the surface's origin is
  \<^verbatim>\<open>(surfaceRect.left, surfaceRect.top)\<close>. Both handlers first turn the sample into
  canvas coordinates by subtracting the origin and dividing by the zoom scale.
\<close>

definition canvasPoint :: "real \<Rightarrow> point \<Rightarrow> point \<Rightarrow> point" where
  "canvasPoint scale origin e = ((fst e - fst origin) / scale, (snd e - snd origin) / scale)"

definition hypot :: "real \<Rightarrow> real \<Rightarrow> real" where
  "hypot a b = sqrt (a\<^sup>2 + b\<^sup>2)"

text \<open>
  The part of the page state drawing touches is the element array together with
  \<^verbatim>\<open>drawingTempId\<close> (\<open>None\<close> for \<^verbatim>\<open>null\<close>). \<^verbatim>\<open>startDrawingSurface\<close> appends the
  new element and remembers its id; stroke colour and width are not modelled.
\<close>

definition startDrawingSurface ::
  "nat \<Rightarrow> string \<Rightarrow> real \<Rightarrow> point \<Rightarrow> point \<Rightarrow> shape list \<times> nat option \<Rightarrow> shape list \<times> nat option" where
  "startDrawingSurface now activeTool scale origin e st =
     (if activeTool \<notin> {''line'', ''arrow'', ''pen''} then st
      else (let (x, y) = canvasPoint scale origin e;
                id = now
            in if activeTool = ''pen''
               then (fst st @ [\<lparr>el_id = id, el_type = ''freehand'', el_x = x, el_y = y,
                                el_width = 1, el_height = 1, el_x2 = 0, el_y2 = 0,
                                el_points = [(x, y)]\<rparr>], Some id)
               else (fst st @ [\<lparr>el_id = id, el_type = activeTool, el_x = x, el_y = y,
                                el_width = 1, el_height = 1, el_x2 = x, el_y2 = y,
                                el_points = []\<rparr>], Some id)))"

text \<open>\<^verbatim>\<open>(maxX - minX) || 1\<close>\<close>

definition orOne :: "real \<Rightarrow> real" where
  "orOne v = (if v = 0 then 1 else v)"

text \<open>
  The callback \<^verbatim>\<open>handlePenDrawing\<close> maps over the elements. Reading the last point of
  an empty point list gives \<^verbatim>\<open>undefined\<close>, whose \<^verbatim>\<open>.x\<close> throws: \<open>None\<close>.
\<close>

definition penCallback :: "real \<Rightarrow> point \<Rightarrow> point \<Rightarrow> nat \<Rightarrow> shape \<Rightarrow> shape option" where
  "penCallback scale origin e drawingTempId el =
     (if el_id el \<noteq> drawingTempId then Some el
      else (let (px, py) = canvasPoint scale origin e
            in if el_points el = [] then None
               else (let lastPoint = last (el_points el);
                         distance = hypot (px - fst lastPoint) (py - snd lastPoint)
                     in if distance < 2 then Some el
                        else (let newPoints = el_points el @ [(px, py)];
                                  xs = map fst newPoints;
                                  ys = map snd newPoints;
                                  minX = Min (set xs);
                                  minY = Min (set ys);
                                  maxX = Max (set xs);
                                  maxY = Max (set ys)
                              in Some (el\<lparr>el_points := newPoints, el_x := minX, el_y := minY,
                                          el_width := orOne (maxX - minX),
                                          el_height := orOne (maxY - minY)\<rparr>)))))"

text \<open>\<^verbatim>\<open>prev.map(callback)\<close> with a callback that may throw.\<close>

fun mapThrowing :: "('a \<Rightarrow> 'b option) \<Rightarrow> 'a list \<Rightarrow> 'b list option" where
  "mapThrowing f [] = Some []"
| "mapThrowing f (x # xs) =
     (case f x of
        None \<Rightarrow> None
      | Some y \<Rightarrow> (case mapThrowing f xs of None \<Rightarrow> None | Some ys \<Rightarrow> Some (y # ys)))"

text \<open>
  \<^verbatim>\<open>handlePenDrawing\<close> returns whether it handled the move, with the new element array.
  \<^verbatim>\<open>!drawingTempId\<close> holds for \<^verbatim>\<open>null\<close> and for the id 0.
\<close>

definition handlePenDrawing ::
  "real \<Rightarrow> point \<Rightarrow> point \<Rightarrow> string \<Rightarrow> shape list \<times> nat option \<Rightarrow> (bool \<times> shape list) option" where
  "handlePenDrawing scale origin e activeTool st =
     (case snd st of
        None \<Rightarrow> Some (False, fst st)
      | Some drawingTempId \<Rightarrow>
          if drawingTempId = 0 \<or> activeTool \<noteq> ''pen'' then Some (False, fst st)
          else map_option (Pair True)
                 (mapThrowing (penCallback scale origin e drawingTempId) (fst st)))"

text \<open>The pointer moves of one pen stroke, in order.\<close>

fun penMoves :: "real \<Rightarrow> point \<Rightarrow> point list \<Rightarrow> shape list \<times> nat option \<Rightarrow> shape list option" where
  "penMoves scale origin [] st = Some (fst st)"
| "penMoves scale origin (e # es) st =
     (case handlePenDrawing scale origin e ''pen'' st of
        None \<Rightarrow> None
      | Some (handled, els) \<Rightarrow> penMoves scale origin es (els, snd st))"

text \<open>
  A whole stroke with the pen on the element array \<open>prev\<close>: pointer-down on the first
  sample, pointer-move on each later one.
\<close>

fun penStroke :: "nat \<Rightarrow> real \<Rightarrow> point \<Rightarrow> point list \<Rightarrow> shape list \<Rightarrow> shape list option" where
  "penStroke now scale origin [] prev = None"
| "penStroke now scale origin (down # moves) prev =
     penMoves scale origin moves (startDrawingSurface now ''pen'' scale origin down (prev, None))"

text \<open>The same moves followed on the drawn element alone.\<close>

fun drawnPath :: "real \<Rightarrow> point \<Rightarrow> nat \<Rightarrow> point list \<Rightarrow> shape \<Rightarrow> shape option" where
  "drawnPath scale origin tempId [] el = Some el"
| "drawnPath scale origin tempId (e # es) el =
     (case penCallback scale origin e tempId el of
        None \<Rightarrow> None
      | Some el' \<Rightarrow> drawnPath scale origin tempId es el')"

text \<open>
  The distances between consecutive samples of a stroke, as the specification's scenario
  measures them.
\<close>

fun sampleGaps :: "point list \<Rightarrow> real list" where
  "sampleGaps (a # b # ps) = hypot (fst b - fst a) (snd b - snd a) # sampleGaps (b # ps)"
| "sampleGaps ps = []"

text \<open>Fifty samples one pixel apart, straight down the screen.\<close>

definition verticalSamples :: "point list" where
  "verticalSamples = map (\<lambda>i. (0, real i)) [0..<50]"

text \<open>The bounding box an element carries is the one of its points, zero extents stored as 1.\<close>

definition enclosesPoints :: "shape \<Rightarrow> bool" where
  "enclosesPoints el \<longleftrightarrow>
     el_points el \<noteq> [] \<and>
     el_x el = Min (set (map fst (el_points el))) \<and>
     el_y el = Min (set (map snd (el_points el))) \<and>
     el_width el = orOne (Max (set (map fst (el_points el))) - Min (set (map fst (el_points el)))) \<and>
     el_height el = orOne (Max (set (map snd (el_points el))) - Min (set (map snd (el_points el))))"

section \<open>Verified properties\<close>

subsection \<open>The example state\<close>

lemma demo_alice: "activeUsers demoServer ''alice'' = Some (member ''s1'' ''alice'' Owner)"
  by (simp add: demoServer_def)

lemma demo_bob: "activeUsers demoServer ''bob'' = Some (member ''s2'' ''bob'' Editor)"
  by (simp add: demoServer_def)

lemma demo_carol: "activeUsers demoServer ''carol'' = Some (member ''s3'' ''carol'' Viewer)"
  by (simp add: demoServer_def)

lemma demo_board: "boards demoServer ''b1'' = Some demoBoard"
  by (simp add: demoServer_def)

lemma demo_room: "rooms demoServer ''b1'' = {''s1'', ''s2'', ''s3''}"
  by (simp add: demoServer_def)

lemma demo_access:
  "hasAccess demoBoard ''alice'' = Some Owner"
  "hasAccess demoBoard ''bob'' = Some Editor"
  "hasAccess demoBoard ''carol'' = Some Viewer"
  by (simp_all add: hasAccess_def demoBoard_def)

lemma member_currentBoard: "currentBoard (member i n r) = Some ''b1''"
  by (simp add: member_def)

subsection \<open>Access control on mutations\<close>

text \<open>
  C1. A connection that has joined a board on which its role is viewer cannot mutate it:
  \<^verbatim>\<open>canvas-update\<close> with action add, update, delete or batch, and \<^verbatim>\<open>element-create\<close>,
  \<^verbatim>\<open>element-update\<close>, \<^verbatim>\<open>element-delete\<close> all leave the whole server state (the
  board's elements included) as it was, and the only emission is one \<^verbatim>\<open>error\<close> event
  with a no-edit-permission message, sent to the sender's socket alone.
\<close>

theorem viewer_mutations_denied:
  assumes "activeUsers s (sock_userId sock) = Some userData"
    and "currentBoard userData = Some boardId"
    and "boards s boardId = Some b"
    and "hasAccess b (sock_userId sock) = Some Viewer"
  shows "(cu_boardId data = boardId \<and> cu_action data \<in> {''add'', ''update'', ''delete'', ''batch''}
            \<longrightarrow> canvas_update now sock data s =
                  (s, [({sock_id sock}, EvError ''No edit permission for this board'')]))
         \<and> element_create now sock boardId element s =
             (s, [({sock_id sock}, EvError ''No edit permission'')])
         \<and> element_update now sock boardId element s =
             (s, [({sock_id sock}, EvError ''No edit permission'')])
         \<and> element_delete now sock boardId elementId s =
             (s, [({sock_id sock}, EvError ''No edit permission'')])"
proof (intro conjI impI)
  assume "cu_boardId data = boardId \<and> cu_action data \<in> {''add'', ''update'', ''delete'', ''batch''}"
  then have "cu_boardId data = boardId" "cu_action data \<noteq> ''cursor''" by auto
  with assms show "canvas_update now sock data s =
                  (s, [({sock_id sock}, EvError ''No edit permission for this board'')])"
    by (simp add: canvas_update_def toSender_def)
next
  from assms show "element_create now sock boardId element s =
      (s, [({sock_id sock}, EvError ''No edit permission'')])"
    by (simp add: element_create_def toSender_def)
next
  from assms show "element_update now sock boardId element s =
      (s, [({sock_id sock}, EvError ''No edit permission'')])"
    by (simp add: element_update_def toSender_def)
next
  from assms show "element_delete now sock boardId elementId s =
      (s, [({sock_id sock}, EvError ''No edit permission'')])"
    by (simp add: element_delete_def toSender_def)
qed

theorem viewer_mutations_denied_witness:
  "activeUsers demoServer (sock_userId (socketOf ''s3'' ''carol''))
     = Some (member ''s3'' ''carol'' Viewer)
   \<and> currentBoard (member ''s3'' ''carol'' Viewer) = Some ''b1''
   \<and> boards demoServer ''b1'' = Some demoBoard
   \<and> hasAccess demoBoard (sock_userId (socketOf ''s3'' ''carol'')) = Some Viewer
   \<and> canvas_update 5 (socketOf ''s3'' ''carol'')
        \<lparr>cu_boardId = ''b1'', cu_elements = None, cu_action = ''delete'',
         cu_element = Some sticky\<rparr> demoServer
      = (demoServer, [({''s3''}, EvError ''No edit permission for this board'')])
   \<and> element_create 5 (socketOf ''s3'' ''carol'') ''b1'' (Some sticky) demoServer
      = (demoServer, [({''s3''}, EvError ''No edit permission'')])
   \<and> element_update 5 (socketOf ''s3'' ''carol'') ''b1'' (Some sticky) demoServer
      = (demoServer, [({''s3''}, EvError ''No edit permission'')])
   \<and> element_delete 5 (socketOf ''s3'' ''carol'') ''b1'' (Some (JStr ''e1'')) demoServer
      = (demoServer, [({''s3''}, EvError ''No edit permission'')])"
proof -
  have 1: "activeUsers demoServer (sock_userId (socketOf ''s3'' ''carol''))
             = Some (member ''s3'' ''carol'' Viewer)"
    by (simp add: socketOf_def demo_carol)
  have 2: "currentBoard (member ''s3'' ''carol'' Viewer) = Some ''b1''"
    by (rule member_currentBoard)
  have 3: "hasAccess demoBoard (sock_userId (socketOf ''s3'' ''carol'')) = Some Viewer"
    by (simp add: socketOf_def demo_access)
  show ?thesis
    using viewer_mutations_denied [OF 1 2 demo_board 3, of
        "\<lparr>cu_boardId = ''b1'', cu_elements = None, cu_action = ''delete'',
          cu_element = Some sticky\<rparr>"
        5 "Some sticky" "Some (JStr ''e1'')"] 1 2 3 demo_board
    by (simp add: socketOf_def)
qed

subsection \<open>Mutations that name an unknown element\<close>

lemma findIndex_None: "findIndex p xs = None \<longleftrightarrow> (\<forall>x\<in>set xs. \<not> p x)"
  by (induction xs) auto

lemma findIndex_Some: "findIndex p xs = Some i \<Longrightarrow> i < length xs \<and> p (xs ! i)"
  by (induction xs arbitrary: i) (auto split: if_splits)

lemma demo_socket [simp]:
  "sock_id (socketOf i n) = i" "sock_userId (socketOf i n) = n" "sock_user (socketOf i n) = userNamed n"
  by (simp_all add: socketOf_def)

lemma demo_elements: "boardElements demoBoard = [sticky]"
  by (simp add: demoBoard_def)

lemma sticky_id: "sticky ''id'' = Some (JStr ''e1'')"
  by (simp add: sticky_def)

text \<open>
  C3, as the code has it. A member with edit rights sends \<^verbatim>\<open>element-update\<close> or
  \<^verbatim>\<open>element-delete\<close> for an id that no stored element carries: in both cases the server
  state is unchanged, nothing is broadcast, and the sender alone receives
  \<^verbatim>\<open>error{"Element not found"}\<close>.
\<close>

theorem absent_id_replies_not_found:
  assumes "activeUsers s (sock_userId sock) = Some userData"
    and "currentBoard userData = Some boardId"
    and "boards s boardId = Some b"
    and "hasAccess b (sock_userId sock) = Some r" and "r \<noteq> Viewer"
  shows "((\<forall>e\<in>set (boardElements b). \<not> strictEq (e ''id'') (element ''id''))
           \<longrightarrow> element_update now sock boardId (Some element) s =
                 (s, [({sock_id sock}, EvError ''Element not found'')]))
       \<and> ((\<forall>e\<in>set (boardElements b). \<not> strictEq (e ''id'') elementId)
           \<longrightarrow> element_delete now sock boardId elementId s =
                 (s, [({sock_id sock}, EvError ''Element not found'')]))"
proof (intro conjI impI)
  assume "\<forall>e\<in>set (boardElements b). \<not> strictEq (e ''id'') (element ''id'')"
  then have "findIndex (\<lambda>e. strictEq (e ''id'') (element ''id'')) (boardElements b) = None"
    by (simp add: findIndex_None)
  with assms show "element_update now sock boardId (Some element) s =
               (s, [({sock_id sock}, EvError ''Element not found'')])"
    by (simp add: element_update_def toSender_def)
next
  assume "\<forall>e\<in>set (boardElements b). \<not> strictEq (e ''id'') elementId"
  then have "\<not> list_ex (\<lambda>el. strictEq (el ''id'') elementId) (boardElements b)"
    by (simp add: list_ex_iff)
  with assms show "element_delete now sock boardId elementId s =
               (s, [({sock_id sock}, EvError ''Element not found'')])"
    by (simp add: element_delete_def toSender_def)
qed

theorem absent_id_replies_not_found_witness:
  "activeUsers demoServer (sock_userId (socketOf ''s2'' ''bob'')) = Some (member ''s2'' ''bob'' Editor)
   \<and> currentBoard (member ''s2'' ''bob'' Editor) = Some ''b1''
   \<and> boards demoServer ''b1'' = Some demoBoard
   \<and> hasAccess demoBoard (sock_userId (socketOf ''s2'' ''bob'')) = Some Editor \<and> Editor \<noteq> Viewer
   \<and> element_update 5 (socketOf ''s2'' ''bob'') ''b1'' (Some memo) demoServer =
        (demoServer, [({''s2''}, EvError ''Element not found'')])
   \<and> element_delete 5 (socketOf ''s2'' ''bob'') ''b1'' (Some (JStr ''e9'')) demoServer =
        (demoServer, [({''s2''}, EvError ''Element not found'')])"
proof -
  have 1: "activeUsers demoServer (sock_userId (socketOf ''s2'' ''bob'')) = Some (member ''s2'' ''bob'' Editor)"
    by (simp add: demo_bob)
  have 2: "currentBoard (member ''s2'' ''bob'' Editor) = Some ''b1''"
    by (rule member_currentBoard)
  have 3: "hasAccess demoBoard (sock_userId (socketOf ''s2'' ''bob'')) = Some Editor"
    by (simp add: demo_access)
  have 4: "Editor \<noteq> Viewer" by simp
  have 5: "\<forall>e\<in>set (boardElements demoBoard). \<not> strictEq (e ''id'') (memo ''id'')"
    by (simp add: demo_elements sticky_id memo_def strictEq_def)
  have 6: "\<forall>e\<in>set (boardElements demoBoard). \<not> strictEq (e ''id'') (Some (JStr ''e9''))"
    by (simp add: demo_elements sticky_id strictEq_def)
  from absent_id_replies_not_found [OF 1 2 demo_board 3 4, of memo 5 "Some (JStr ''e9'')"] 5 6
  have "element_update 5 (socketOf ''s2'' ''bob'') ''b1'' (Some memo) demoServer =
        (demoServer, [({''s2''}, EvError ''Element not found'')])"
    and "element_delete 5 (socketOf ''s2'' ''bob'') ''b1'' (Some (JStr ''e9'')) demoServer =
        (demoServer, [({''s2''}, EvError ''Element not found'')])"
    by simp_all
  with 1 2 3 4 demo_board show ?thesis by blast
qed

text \<open>
  The claim's silent delete does not hold: Bob, an editor, deletes the id \<open>e9\<close> on a board
  whose only element has id \<open>e1\<close>, and is sent an error.
\<close>

theorem delete_absent_id_counterexample:
  "boardElements demoBoard = [sticky] \<and> sticky ''id'' = Some (JStr ''e1'')
   \<and> element_delete 5 (socketOf ''s2'' ''bob'') ''b1'' (Some (JStr ''e9'')) demoServer =
        (demoServer, [({''s2''}, EvError ''Element not found'')])"
  by (simp add: demo_elements sticky_id element_delete_def demo_bob member_currentBoard
      demo_board demo_access strictEq_def toSender_def)

subsection \<open>Saving as a viewer\<close>

text \<open>
  C10. A joined viewer sends \<^verbatim>\<open>board-save\<close>: the server state (so the stored elements)
  is unchanged and no \<^verbatim>\<open>error\<close> is emitted; the single emission is \<^verbatim>\<open>board-saved\<close>,
  carrying the sender and the number of supplied elements, to the room without the sender.
\<close>

theorem viewer_board_save:
  assumes "activeUsers s (sock_userId sock) = Some userData"
    and "currentBoard userData = Some boardId"
    and "boards s boardId = Some b"
    and "hasAccess b (sock_userId sock) = Some Viewer"
  shows "board_save now sock boardId elems s =
           (s, [(rooms s boardId - {sock_id sock},
                 EvBoardSaved (user userData)
                   (case elems of None \<Rightarrow> 0 | Some els \<Rightarrow> length els) now)])"
  using assms by (cases elems) (simp_all add: board_save_def toOthers_def)

theorem viewer_board_save_witness:
  "activeUsers demoServer (sock_userId (socketOf ''s3'' ''carol'')) = Some (member ''s3'' ''carol'' Viewer)
   \<and> currentBoard (member ''s3'' ''carol'' Viewer) = Some ''b1''
   \<and> boards demoServer ''b1'' = Some demoBoard
   \<and> hasAccess demoBoard (sock_userId (socketOf ''s3'' ''carol'')) = Some Viewer
   \<and> board_save 5 (socketOf ''s3'' ''carol'') ''b1'' (Some [memo, sticky]) demoServer =
        (demoServer, [({''s1'', ''s2''}, EvBoardSaved (userNamed ''carol'') 2 5)])"
proof -
  have 1: "activeUsers demoServer (sock_userId (socketOf ''s3'' ''carol'')) = Some (member ''s3'' ''carol'' Viewer)"
    by (simp add: demo_carol)
  have 2: "currentBoard (member ''s3'' ''carol'' Viewer) = Some ''b1''"
    by (rule member_currentBoard)
  have 3: "hasAccess demoBoard (sock_userId (socketOf ''s3'' ''carol'')) = Some Viewer"
    by (simp add: demo_access)
  have "rooms demoServer ''b1'' - {sock_id (socketOf ''s3'' ''carol'')} = {''s1'', ''s2''}"
    by (auto simp add: demo_room)
  with viewer_board_save [OF 1 2 demo_board 3, of 5 "Some [memo, sticky]"]
  have "board_save 5 (socketOf ''s3'' ''carol'') ''b1'' (Some [memo, sticky]) demoServer =
        (demoServer, [({''s1'', ''s2''}, EvBoardSaved (userNamed ''carol'') 2 5)])"
    by (simp add: member_def)
  with 1 2 3 demo_board show ?thesis by blast
qed

subsection \<open>Adding an element\<close>

lemma newElement_fields:
  "newElement now u el ''id'' = (if truthy (el ''id'') then el ''id'' else Some (JStr (decimal now)))"
  "newElement now u el ''createdBy'' = Some (JStr u)"
  "newElement now u el ''createdAt'' = Some (JDate now)"
  "newElement now u el ''updatedAt'' = Some (JDate now)"
  by (auto simp: newElement_def split: option.splits)

lemma persist_valid:
  "list_all schemaValid (boardElements b) \<Longrightarrow> persist now u b = Saved (updateLastModified now u b)"
  by (simp add: persist_def updateLastModified_def Let_def)

lemma persist_invalid:
  "\<not> list_all schemaValid (boardElements b) \<Longrightarrow> persist now u b = Threw"
  by (simp add: persist_def updateLastModified_def Let_def)

lemma element_create_success:
  assumes "activeUsers s (sock_userId sock) = Some userData"
    and "currentBoard userData = Some boardId"
    and "boards s boardId = Some b"
    and "hasAccess b (sock_userId sock) = Some r" and "r \<noteq> Viewer"
    and "castElement s (newElement now (sock_userId sock) el) = Some doc"
    and "list_all schemaValid (boardElements b @ [doc])"
  shows "element_create now sock boardId (Some el) s =
           (saveBoard boardId (updateLastModified now (sock_userId sock)
                 (b\<lparr>boardElements := boardElements b @ [doc]\<rparr>)) s,
            [(rooms s boardId,
              EvElementCreated (newElement now (sock_userId sock) el) (user userData) now)])"
proof -
  from assms(7) have "persist now (sock_userId sock) (b\<lparr>boardElements := boardElements b @ [doc]\<rparr>)
      = Saved (updateLastModified now (sock_userId sock) (b\<lparr>boardElements := boardElements b @ [doc]\<rparr>))"
    by (intro persist_valid) simp
  with assms(1-6) show ?thesis
    by (simp add: element_create_def toRoom_def saveBoard_def Let_def)
qed

lemma canvas_update_add_success:
  assumes "activeUsers s (sock_userId sock) = Some userData"
    and "currentBoard userData = Some boardId"
    and "boards s boardId = Some b"
    and "hasAccess b (sock_userId sock) = Some r" and "r \<noteq> Viewer"
    and "castElement s (newElement now (sock_userId sock) el) = Some doc"
    and "list_all schemaValid (boardElements b @ [doc])"
  shows "canvas_update now sock
           \<lparr>cu_boardId = boardId, cu_elements = els, cu_action = ''add'', cu_element = Some el\<rparr> s =
           (saveBoard boardId (updateLastModified now (sock_userId sock)
                 (b\<lparr>boardElements := boardElements b @ [doc]\<rparr>)) s,
            [(rooms s boardId - {sock_id sock},
               EvCanvasUpdated (Some (boardElements b @ [doc]))
                 ''add'' (Some el) (user userData) now (version b + 1)),
             ({sock_id sock}, EvCanvasUpdateConfirmed ''add'' (Some el) now)])"
proof -
  from assms(7) have "persist now (sock_userId sock) (b\<lparr>boardElements := boardElements b @ [doc]\<rparr>)
      = Saved (updateLastModified now (sock_userId sock) (b\<lparr>boardElements := boardElements b @ [doc]\<rparr>))"
    by (intro persist_valid) simp
  with assms(1-6) show ?thesis
    by (simp add: canvas_update_def canvasAction_def toOthers_def toSender_def saveBoard_def
        updateLastModified_def Let_def)
qed

text \<open>
  When the cast fails, or some element of the board with the new one appended fails the
  schema's validators, the save throws: nothing is stored or broadcast and the sender is
  told so.
\<close>

lemma element_create_rejected:
  assumes "activeUsers s (sock_userId sock) = Some userData"
    and "currentBoard userData = Some boardId"
    and "boards s boardId = Some b"
    and "hasAccess b (sock_userId sock) = Some r" and "r \<noteq> Viewer"
    and "case castElement s (newElement now (sock_userId sock) el) of
           None \<Rightarrow> True
         | Some doc \<Rightarrow> \<not> list_all schemaValid (boardElements b @ [doc])"
  shows "element_create now sock boardId (Some el) s =
           (s, [({sock_id sock}, EvError ''Failed to create element'')])"
proof (cases "castElement s (newElement now (sock_userId sock) el)")
  case None
  with assms(1-5) show ?thesis
    by (simp add: element_create_def toSender_def Let_def)
next
  case (Some doc)
  with assms(6) have "persist now (sock_userId sock) (b\<lparr>boardElements := boardElements b @ [doc]\<rparr>)
      = Threw"
    by (intro persist_invalid) simp
  with Some assms(1-5) show ?thesis
    by (simp add: element_create_def toSender_def Let_def)
qed

text \<open>
  C5, as the code has it. A joined member with edit rights adds an element whose
  subdocument can be built and passes the schema's validators, on a board whose stored
  elements pass them. The element gets an id when it has none (or a falsy one), the
  creator and both timestamps; its subdocument is appended to the board's list, the
  board's version is bumped and the board is written back. \<^verbatim>\<open>element-create\<close> then
  emits \<^verbatim>\<open>element-created\<close> with the stamped element to the whole room, the sender
  included; the add branch of \<^verbatim>\<open>canvas-update\<close> emits \<^verbatim>\<open>canvas-updated\<close> to the room
  without the sender and a confirmation to the sender.
\<close>

theorem add_appends_and_broadcasts:
  assumes "activeUsers s (sock_userId sock) = Some userData"
    and "currentBoard userData = Some boardId"
    and "boards s boardId = Some b"
    and "hasAccess b (sock_userId sock) = Some r" and "r \<noteq> Viewer"
    and "castElement s (newElement now (sock_userId sock) el) = Some doc"
    and "schemaValid doc"
    and "list_all schemaValid (boardElements b)"
  shows "(let created = newElement now (sock_userId sock) el;
              b' = updateLastModified now (sock_userId sock)
                     (b\<lparr>boardElements := boardElements b @ [doc]\<rparr>);
              s' = saveBoard boardId b' s
          in element_create now sock boardId (Some el) s =
               (s', [(rooms s boardId, EvElementCreated created (user userData) now)])
             \<and> canvas_update now sock
                 \<lparr>cu_boardId = boardId, cu_elements = els, cu_action = ''add'',
                  cu_element = Some el\<rparr> s =
               (s', [(rooms s boardId - {sock_id sock},
                      EvCanvasUpdated (Some (boardElements b')) ''add'' (Some el)
                        (user userData) now (version b')),
                     ({sock_id sock}, EvCanvasUpdateConfirmed ''add'' (Some el) now)])
             \<and> boards s' boardId = Some b'
             \<and> boardElements b' = boardElements b @ [doc]
             \<and> version b' = version b + 1
             \<and> created ''id'' =
                 (if truthy (el ''id'') then el ''id'' else Some (JStr (decimal now)))
             \<and> created ''createdBy'' = Some (JStr (sock_userId sock))
             \<and> created ''createdAt'' = Some (JDate now)
             \<and> created ''updatedAt'' = Some (JDate now))"
  unfolding Let_def
proof (intro conjI)
  from assms(7,8) have v: "list_all schemaValid (boardElements b @ [doc])" by simp
  show "element_create now sock boardId (Some el) s =
    (saveBoard boardId (updateLastModified now (sock_userId sock)
        (b\<lparr>boardElements := boardElements b @ [doc]\<rparr>)) s,
     [(rooms s boardId, EvElementCreated (newElement now (sock_userId sock) el) (user userData) now)])"
    by (rule element_create_success [OF assms(1-6) v])
  show "canvas_update now sock
     \<lparr>cu_boardId = boardId, cu_elements = els, cu_action = ''add'', cu_element = Some el\<rparr> s =
    (saveBoard boardId (updateLastModified now (sock_userId sock)
        (b\<lparr>boardElements := boardElements b @ [doc]\<rparr>)) s,
     [(rooms s boardId - {sock_id sock},
       EvCanvasUpdated (Some (boardElements (updateLastModified now (sock_userId sock)
            (b\<lparr>boardElements := boardElements b @ [doc]\<rparr>))))
         ''add'' (Some el) (user userData) now
         (version (updateLastModified now (sock_userId sock)
            (b\<lparr>boardElements := boardElements b @ [doc]\<rparr>)))),
      ({sock_id sock}, EvCanvasUpdateConfirmed ''add'' (Some el) now)])"
    by (simp add: canvas_update_add_success [OF assms(1-6) v] updateLastModified_def)
qed (simp_all add: saveBoard_def updateLastModified_def newElement_fields)

lemma numbered_created:
  "newElement 5 ''bob'' numbered ''id'' = Some (JNum 7)"
  "castElement demoServer (newElement 5 ''bob'' numbered)
     = Some ((newElement 5 ''bob'' numbered)(''id'' \<mapsto> JStr ''7''))"
  "schemaValid ((newElement 5 ''bob'' numbered)(''id'' \<mapsto> JStr ''7''))"
  by (simp_all add: newElement_def numbered_def memo_def demoServer_def demoCast_def
      decimal.simps schemaValid_def)

lemma demo_stored_valid: "list_all schemaValid (boardElements demoBoard)"
  by (simp add: demo_elements sticky_def schemaValid_def)

theorem add_appends_and_broadcasts_witness:
  "element_create 5 (socketOf ''s2'' ''bob'') ''b1'' (Some numbered) demoServer =
     (saveBoard ''b1'' (updateLastModified 5 ''bob''
         (demoBoard\<lparr>boardElements :=
            [sticky, (newElement 5 ''bob'' numbered)(''id'' \<mapsto> JStr ''7'')]\<rparr>)) demoServer,
      [({''s1'', ''s2'', ''s3''},
        EvElementCreated (newElement 5 ''bob'' numbered) (userNamed ''bob'') 5)])
   \<and> newElement 5 ''bob'' numbered ''id'' = Some (JNum 7)"
proof -
  have 1: "activeUsers demoServer (sock_userId (socketOf ''s2'' ''bob'')) = Some (member ''s2'' ''bob'' Editor)"
    by (simp add: demo_bob)
  have 2: "currentBoard (member ''s2'' ''bob'' Editor) = Some ''b1''"
    by (rule member_currentBoard)
  have 3: "hasAccess demoBoard (sock_userId (socketOf ''s2'' ''bob'')) = Some Editor"
    by (simp add: demo_access)
  have 4: "Editor \<noteq> Viewer" by simp
  have 5: "castElement demoServer (newElement 5 (sock_userId (socketOf ''s2'' ''bob'')) numbered)
             = Some ((newElement 5 ''bob'' numbered)(''id'' \<mapsto> JStr ''7''))"
    by (simp add: numbered_created)
  from add_appends_and_broadcasts [OF 1 2 demo_board 3 4 5 numbered_created(3) demo_stored_valid,
      of None]
  show ?thesis
    by (simp add: Let_def demo_room demo_elements member_def numbered_created(1))
qed

text \<open>
  The claim's ``every room member except the sender'' does not hold for
  \<^verbatim>\<open>element-create\<close>: Bob's own socket \<open>s2\<close> is among the recipients.
\<close>

theorem element_created_reaches_sender_counterexample:
  "snd (element_create 5 (socketOf ''s2'' ''bob'') ''b1'' (Some memo) demoServer) =
     [({''s1'', ''s2'', ''s3''}, EvElementCreated (newElement 5 ''bob'' memo) (userNamed ''bob'') 5)]
   \<and> sock_id (socketOf ''s2'' ''bob'') = ''s2''"
proof -
  have 1: "activeUsers demoServer (sock_userId (socketOf ''s2'' ''bob'')) = Some (member ''s2'' ''bob'' Editor)"
    by (simp add: demo_bob)
  have 2: "currentBoard (member ''s2'' ''bob'' Editor) = Some ''b1''"
    by (rule member_currentBoard)
  have 3: "hasAccess demoBoard (sock_userId (socketOf ''s2'' ''bob'')) = Some Editor"
    by (simp add: demo_access)
  have 4: "Editor \<noteq> Viewer" by simp
  have 5: "castElement demoServer (newElement 5 (sock_userId (socketOf ''s2'' ''bob'')) memo)
             = Some (newElement 5 ''bob'' memo)"
    by (simp add: newElement_def memo_def demoServer_def demoCast_def)
  have 6: "list_all schemaValid (boardElements demoBoard @ [newElement 5 ''bob'' memo])"
    by (simp add: demo_elements sticky_def newElement_def memo_def schemaValid_def)
  from element_create_success [OF 1 2 demo_board 3 4 5 6]
  show ?thesis by (simp add: demo_room member_def)
qed

text \<open>
  An element without a type is refused by the schema: Bob's \<^verbatim>\<open>element-create\<close> with the
  empty object stores and broadcasts nothing.
\<close>

lemma element_create_without_type:
  "element_create 5 (socketOf ''s2'' ''bob'') ''b1'' (Some Map.empty) demoServer =
     (demoServer, [({''s2''}, EvError ''Failed to create element'')])"
proof -
  have 1: "activeUsers demoServer (sock_userId (socketOf ''s2'' ''bob'')) = Some (member ''s2'' ''bob'' Editor)"
    by (simp add: demo_bob)
  have 2: "currentBoard (member ''s2'' ''bob'' Editor) = Some ''b1''"
    by (rule member_currentBoard)
  have 3: "hasAccess demoBoard (sock_userId (socketOf ''s2'' ''bob'')) = Some Editor"
    by (simp add: demo_access)
  have 4: "Editor \<noteq> Viewer" by simp
  have 5: "case castElement demoServer (newElement 5 (sock_userId (socketOf ''s2'' ''bob'')) Map.empty) of
             None \<Rightarrow> True
           | Some doc \<Rightarrow> \<not> list_all schemaValid (boardElements demoBoard @ [doc])"
    by (simp add: newElement_def demoServer_def demoCast_def schemaValid_def)
  from element_create_rejected [OF 1 2 demo_board 3 4 5] show ?thesis by simp
qed

subsection \<open>Presence tracking\<close>

lemma aliceOnB1_state:
  "aliceOnB1 = \<lparr>activeUsers = [''alice'' \<mapsto> \<lparr>socketId = ''s1'', user = userNamed ''alice'', joinedAt = 1,
                     currentBoard = Some ''b1'', role = Some Owner\<rparr>],
                boardRooms = [''b1'' \<mapsto> [''alice'']],
                rooms = (\<lambda>_. {})(''b1'' := {''s1''}),
                boards = [''b1'' \<mapsto> demoBoard, ''b2'' \<mapsto> demoBoard],
                castElement = demoCast\<rparr>"
  by (simp add: aliceOnB1_def connection_def join_board_def emptyServer_def demo_access
      socketLeave_def socketJoin_def setAdd_def Let_def)

lemma aliceOnB2_state:
  "aliceOnB2 = \<lparr>activeUsers = [''alice'' \<mapsto> \<lparr>socketId = ''s1'', user = userNamed ''alice'', joinedAt = 1,
                     currentBoard = Some ''b2'', role = Some Owner\<rparr>],
                boardRooms = [''b1'' \<mapsto> [''alice''], ''b2'' \<mapsto> [''alice'']],
                rooms = (\<lambda>_. {})(''b1'' := {}, ''b2'' := {''s1''}),
                boards = [''b1'' \<mapsto> demoBoard, ''b2'' \<mapsto> demoBoard],
                castElement = demoCast\<rparr>"
  by (simp add: aliceOnB2_def aliceOnB1_state join_board_def demo_access
      socketLeave_def socketJoin_def setAdd_def Let_def)

text \<open>
  C2 fails on the code. After Alice has joined \<open>b1\<close> and then \<open>b2\<close>, her socket has left
  the Socket.IO room of \<open>b1\<close> and her current board is \<open>b2\<close>, but \<open>boardRooms\<close> still lists
  her under \<open>b1\<close>; when Bob then joins \<open>b1\<close>, the member list he is sent and the
  \<^verbatim>\<open>active-users-updated\<close> broadcast both contain Alice.
\<close>

theorem join_keeps_previous_board_member:
  "boardRooms aliceOnB2 ''b1'' = Some [''alice'']
   \<and> map_option currentBoard (activeUsers aliceOnB2 ''alice'') = Some (Some ''b2'')
   \<and> rooms aliceOnB2 ''b1'' = {}
   \<and> snd bobJoinsB1 =
       [({}, EvUserJoined (userNamed ''bob'') (Some Editor) 2),
        ({''s2''}, EvBoardJoined ''b1'' Editor
           [\<lparr>socketId = ''s1'', user = userNamed ''alice'', joinedAt = 1,
             currentBoard = Some ''b2'', role = Some Owner\<rparr>,
            \<lparr>socketId = ''s2'', user = userNamed ''bob'', joinedAt = 2,
             currentBoard = Some ''b1'', role = Some Editor\<rparr>]),
        ({''s2''}, EvActiveUsersUpdated
           [\<lparr>socketId = ''s1'', user = userNamed ''alice'', joinedAt = 1,
             currentBoard = Some ''b2'', role = Some Owner\<rparr>,
            \<lparr>socketId = ''s2'', user = userNamed ''bob'', joinedAt = 2,
             currentBoard = Some ''b1'', role = Some Editor\<rparr>])]"
  by (simp add: bobJoinsB1_def aliceOnB2_state join_board_def connection_def demo_access
      socketLeave_def socketJoin_def setAdd_def Let_def usersInBoard_def toOthers_def
      toSender_def toRoom_def)

subsection \<open>Recording history\<close>

lemma slice0_nonneg: "0 \<le> n \<Longrightarrow> slice0 xs n = take (nat n) xs"
  by (simp add: slice0_def)

lemma shift_is_drop:
  "length xs \<le> 51 \<Longrightarrow> (if length xs > 50 then tl xs else xs) = drop (length xs - 50) xs"
proof (cases "length xs > 50")
  case True
  assume "length xs \<le> 51"
  with True have "length xs - 50 = Suc 0" by simp
  with True show ?thesis by (simp add: drop_Suc)
next
  case False
  then show ?thesis by simp
qed

text \<open>
  Called by a handler of the render on screen, on a well-formed history of at most 50
  snapshots, \<^verbatim>\<open>recordHistory\<close> of the canvas page keeps the entries up to the pointer,
  appends the snapshot and keeps the 50 most recent of the result; the pointer then
  addresses the new snapshot and the history is again well formed and at most 50 long.
\<close>

lemma recordHistory_at_current_render:
  assumes "pointerValid s" "length (history s) \<le> 50"
  shows "history (atCurrentRender (recordHistory els) s) =
           drop (length (take (nat (historyIndex s + 1)) (history s) @ [els]) - 50)
             (take (nat (historyIndex s + 1)) (history s) @ [els])"
    and "historyIndex (atCurrentRender (recordHistory els) s) = min (historyIndex s + 1) 49"
    and "snapshotAt (history (atCurrentRender (recordHistory els) s))
           (historyIndex (atCurrentRender (recordHistory els) s)) = Some els"
    and "length (history (atCurrentRender (recordHistory els) s)) \<le> 50"
    and "pointerValid (atCurrentRender (recordHistory els) s)"
proof -
  from assms have i: "0 \<le> historyIndex s + 1" by (auto simp: pointerValid_def)
  let ?next = "take (nat (historyIndex s + 1)) (history s) @ [els]"
  from assms have "length ?next \<le> 51" by (auto simp: pointerValid_def)
  then have "(if length ?next > 50 then tl ?next else ?next) = drop (length ?next - 50) ?next"
    by (rule shift_is_drop)
  with i show "history (atCurrentRender (recordHistory els) s) = drop (length ?next - 50) ?next"
    by (simp add: atCurrentRender_def recordHistory_def slice0_nonneg Let_def del: length_append)
  show "historyIndex (atCurrentRender (recordHistory els) s) = min (historyIndex s + 1) 49"
    by (simp add: atCurrentRender_def recordHistory_def Let_def)
  from assms
  show "snapshotAt (history (atCurrentRender (recordHistory els) s))
          (historyIndex (atCurrentRender (recordHistory els) s)) = Some els"
    by (auto simp: atCurrentRender_def pointerValid_def recordHistory_def slice0_def Let_def
        min_def snapshotAt_def nth_append nth_tl)
  from assms
  show "length (history (atCurrentRender (recordHistory els) s)) \<le> 50"
    by (auto simp: atCurrentRender_def pointerValid_def recordHistory_def slice0_def Let_def)
  from assms
  show "pointerValid (atCurrentRender (recordHistory els) s)"
    by (auto simp: atCurrentRender_def pointerValid_def recordHistory_def slice0_def Let_def
        min_def)
qed

lemma useCanvasState_records:
  assumes "historyIndex s = int (length (history s)) - 1"
  shows "history ((atCurrentRender (useCanvasState_recordHistory els) ^^ n) s)
           = history s @ replicate n els
         \<and> historyIndex ((atCurrentRender (useCanvasState_recordHistory els) ^^ n) s)
           = historyIndex s + int n"
  using assms
proof (induction n)
  case 0
  then show ?case by simp
next
  case (Suc n)
  then show ?case
    by (simp add: atCurrentRender_def useCanvasState_recordHistory_def slice0_def Let_def
        replicate_append_same)
qed

lemma localCanvas_reached:
  "atCurrentRender (commitMutation [sticky]) initialCanvas = localCanvas"
  by (simp add: atCurrentRender_def commitMutation_def recordHistory_def slice0_def Let_def
      initialCanvas_def localCanvas_def)

text \<open>
  C7 fails in the code. The listeners for inbound element events are created by the render
  in which the connection was established and stay registered, so the
  \<^verbatim>\<open>recordHistory\<close> they call trims the history at the pointer of that render and not
  at the current one. Take a page that connected while its history was empty and on which
  one sticky note has been added since: the history holds one snapshot and the pointer
  addresses it. When an \<^verbatim>\<open>element-deleted\<close> event arrives, the listener's
  \<^verbatim>\<open>recordHistory\<close> discards the snapshot at the pointer, not only those past it, and
  moves the pointer to 1 in a history of one snapshot, so the pointer addresses no entry;
  the same happens when the recorded array is \<open>[]\<close>. In the hook, \<^verbatim>\<open>recordHistory\<close>
  has no bound: 51 calls leave 51 snapshots.
\<close>

theorem recordHistory_stale_pointer:
  "atCurrentRender (commitMutation [sticky]) initialCanvas = localCanvas
   \<and> pointerValid localCanvas
   \<and> recordHistory [] initialCanvas localCanvas
       = \<lparr>elements = [sticky], history = [[]], historyIndex = 1\<rparr>
   \<and> handleElementDelete (Some elementDeletedPayload) initialCanvas localCanvas
       = \<lparr>elements = [sticky], history = [[sticky]], historyIndex = 1\<rparr>
   \<and> snapshotAt (history (recordHistory [] initialCanvas localCanvas))
       (historyIndex (recordHistory [] initialCanvas localCanvas)) = None
   \<and> length (history
        ((atCurrentRender (useCanvasState_recordHistory [sticky]) ^^ 51) initialCanvas)) = 51"
proof -
  have i: "historyIndex (initialCanvas :: element canvas)
             = int (length (history (initialCanvas :: element canvas))) - 1"
    by (simp add: initialCanvas_def)
  have "length (history
          ((atCurrentRender (useCanvasState_recordHistory [sticky]) ^^ 51) initialCanvas)) = 51"
    using useCanvasState_records [OF i, where els="[sticky]" and n=51]
    by (simp add: initialCanvas_def)
  moreover have "pointerValid localCanvas"
    by (simp add: pointerValid_def localCanvas_def)
  moreover have r: "recordHistory [] initialCanvas localCanvas
       = \<lparr>elements = [sticky], history = [[]], historyIndex = 1\<rparr>"
    by (simp add: recordHistory_def slice0_def Let_def initialCanvas_def localCanvas_def)
  moreover have "handleElementDelete (Some elementDeletedPayload) initialCanvas localCanvas
       = \<lparr>elements = [sticky], history = [[sticky]], historyIndex = 1\<rparr>"
    by (simp add: handleElementDelete_def commitMutation_def recordHistory_def slice0_def
        Let_def initialCanvas_def localCanvas_def elementDeletedPayload_def strictEq_def
        sticky_def)
  moreover have "snapshotAt (history (recordHistory [] initialCanvas localCanvas))
       (historyIndex (recordHistory [] initialCanvas localCanvas)) = None"
    by (simp add: r snapshotAt_def)
  ultimately show ?thesis using localCanvas_reached by blast
qed

subsection \<open>Undo and redo\<close>

lemma commitMutation_at_end:
  assumes "historyIndex s = int (length (history s)) - 1" "length (history s) < 50"
  shows "atCurrentRender (commitMutation els) s =
           s\<lparr>elements := els, history := history s @ [els], historyIndex := historyIndex s + 1\<rparr>"
  using assms by (simp add: atCurrentRender_def commitMutation_def recordHistory_def slice0_def Let_def)

lemma useCanvasState_commit_at_end:
  assumes "historyIndex s = int (length (history s)) - 1"
  shows "atCurrentRender (useCanvasState_commit els) s =
           s\<lparr>elements := els, history := history s @ [els], historyIndex := historyIndex s + 1\<rparr>"
  using assms by (simp add: atCurrentRender_def useCanvasState_commit_def useCanvasState_recordHistory_def slice0_def Let_def)

lemma fold_commitMutation:
  assumes "historyIndex s = int (length (history s)) - 1" "length (history s) + length ms \<le> 50"
  shows "fold (\<lambda>els. atCurrentRender (commitMutation els)) ms s =
           s\<lparr>elements := (if ms = [] then elements s else last ms),
             history := history s @ ms,
             historyIndex := historyIndex s + int (length ms)\<rparr>"
  using assms
proof (induction ms arbitrary: s)
  case Nil
  then show ?case by simp
next
  case (Cons m ms)
  let ?s1 = "s\<lparr>elements := m, history := history s @ [m], historyIndex := historyIndex s + 1\<rparr>"
  from Cons.prems have c: "atCurrentRender (commitMutation m) s = ?s1"
    by (intro commitMutation_at_end) simp_all
  from Cons.prems have "fold (\<lambda>els. atCurrentRender (commitMutation els)) ms ?s1 =
      ?s1\<lparr>elements := (if ms = [] then elements ?s1 else last ms),
          history := history ?s1 @ ms,
          historyIndex := historyIndex ?s1 + int (length ms)\<rparr>"
    by (intro Cons.IH) simp_all
  with c show ?case by simp
qed

lemma fold_useCanvasState_commit:
  assumes "historyIndex s = int (length (history s)) - 1"
  shows "fold (\<lambda>els. atCurrentRender (useCanvasState_commit els)) ms s =
           s\<lparr>elements := (if ms = [] then elements s else last ms),
             history := history s @ ms,
             historyIndex := historyIndex s + int (length ms)\<rparr>"
  using assms
proof (induction ms arbitrary: s)
  case Nil
  then show ?case by simp
next
  case (Cons m ms)
  let ?s1 = "s\<lparr>elements := m, history := history s @ [m], historyIndex := historyIndex s + 1\<rparr>"
  from Cons.prems have c: "atCurrentRender (useCanvasState_commit m) s = ?s1"
    by (intro useCanvasState_commit_at_end) simp_all
  from Cons.prems have "fold (\<lambda>els. atCurrentRender (useCanvasState_commit els)) ms ?s1 =
      ?s1\<lparr>elements := (if ms = [] then elements ?s1 else last ms),
          history := history ?s1 @ ms,
          historyIndex := historyIndex ?s1 + int (length ms)\<rparr>"
    by (intro Cons.IH) simp_all
  with c show ?case by simp
qed

lemma useCanvasState_redo_eq: "atCurrentRender useCanvasState_redo s = atCurrentRender redo s"
  by (simp add: atCurrentRender_def useCanvasState_redo_def redo_def)

lemma useCanvasState_undo_eq: "0 < historyIndex s \<Longrightarrow> atCurrentRender useCanvasState_undo s = atCurrentRender undo s"
  by (simp add: atCurrentRender_def useCanvasState_undo_def undo_def)

lemma repeatedly_undo:
  assumes "int k \<le> historyIndex s" "historyIndex s < int (length (history s))"
  shows "repeatedly k (atCurrentRender undo) s =
           Some (s\<lparr>elements := (if k = 0 then elements s
                                else history s ! nat (historyIndex s - int k)),
                   historyIndex := historyIndex s - int k\<rparr>)
         \<and> repeatedly k (atCurrentRender useCanvasState_undo) s = repeatedly k (atCurrentRender undo) s"
  using assms
proof (induction k arbitrary: s)
  case 0
  then show ?case by simp
next
  case (Suc k)
  let ?s1 = "s\<lparr>elements := history s ! nat (historyIndex s - 1),
               historyIndex := historyIndex s - 1\<rparr>"
  from Suc.prems have u: "atCurrentRender undo s = Some ?s1"
    by (simp add: atCurrentRender_def undo_def snapshotAt_def Let_def)
  from Suc.prems have u': "atCurrentRender useCanvasState_undo s = atCurrentRender undo s"
    by (intro useCanvasState_undo_eq) simp
  from Suc.prems have "repeatedly k (atCurrentRender undo) ?s1 =
      Some (?s1\<lparr>elements := (if k = 0 then elements ?s1
                               else history ?s1 ! nat (historyIndex ?s1 - int k)),
                 historyIndex := historyIndex ?s1 - int k\<rparr>)
      \<and> repeatedly k (atCurrentRender useCanvasState_undo) ?s1 = repeatedly k (atCurrentRender undo) ?s1"
    by (intro Suc.IH) simp_all
  with u u' show ?case by (simp add: algebra_simps)
qed

lemma repeatedly_redo:
  assumes "- 1 \<le> historyIndex s" "historyIndex s + int k < int (length (history s))"
  shows "repeatedly k (atCurrentRender redo) s =
           Some (s\<lparr>elements := (if k = 0 then elements s
                                else history s ! nat (historyIndex s + int k)),
                   historyIndex := historyIndex s + int k\<rparr>)"
  using assms
proof (induction k arbitrary: s)
  case 0
  then show ?case by simp
next
  case (Suc k)
  let ?s1 = "s\<lparr>elements := history s ! nat (historyIndex s + 1),
               historyIndex := historyIndex s + 1\<rparr>"
  from Suc.prems have u: "atCurrentRender redo s = Some ?s1"
    by (simp add: atCurrentRender_def redo_def snapshotAt_def Let_def)
  from Suc.prems have "repeatedly k (atCurrentRender redo) ?s1 =
      Some (?s1\<lparr>elements := (if k = 0 then elements ?s1
                               else history ?s1 ! nat (historyIndex ?s1 + int k)),
                 historyIndex := historyIndex ?s1 + int k\<rparr>)"
    by (intro Suc.IH) simp_all
  with u show ?case by (simp add: algebra_simps)
qed

lemma repeatedly_cong: "(\<And>x. f x = g x) \<Longrightarrow> repeatedly n f s = repeatedly n g s"
  by (induction n arbitrary: s) (simp_all split: option.splits)

text \<open>
  The round trip on a state \<open>t\<close> reached by appending \<open>ms\<close> snapshots behind a pointer
  that was at the end of a non-empty history.
\<close>

lemma round_trip_appended:
  assumes ne: "history s \<noteq> []"
    and ptr: "historyIndex s = int (length (history s)) - 1"
    and init: "last (history s) = elements s"
    and t: "t = s\<lparr>elements := (if ms = [] then elements s else last ms),
                  history := history s @ ms,
                  historyIndex := historyIndex s + int (length ms)\<rparr>"
  shows "\<exists>u. repeatedly (length ms) (atCurrentRender undo) t = Some u \<and> elements u = elements s \<and>
             repeatedly (length ms) (atCurrentRender useCanvasState_undo) t = Some u \<and>
             repeatedly (length ms) (atCurrentRender redo) u = Some t"
proof (cases "ms = []")
  case True
  with t show ?thesis by simp
next
  case False
  let ?u = "t\<lparr>elements := history t ! nat (historyIndex t - int (length ms)),
               historyIndex := historyIndex t - int (length ms)\<rparr>"
  have "repeatedly (length ms) (atCurrentRender undo) t =
          Some (t\<lparr>elements := (if length ms = 0 then elements t
                               else history t ! nat (historyIndex t - int (length ms))),
                 historyIndex := historyIndex t - int (length ms)\<rparr>)
        \<and> repeatedly (length ms) (atCurrentRender useCanvasState_undo) t = repeatedly (length ms) (atCurrentRender undo) t"
    by (rule repeatedly_undo) (use ne ptr in \<open>simp_all add: t\<close>)
  with False have u1: "repeatedly (length ms) (atCurrentRender undo) t = Some ?u"
    and u2: "repeatedly (length ms) (atCurrentRender useCanvasState_undo) t = Some ?u" by simp_all
  have n: "nat (int (length (history s)) - 1) = length (history s) - 1" by simp
  have u3: "elements ?u = elements s"
    using ne ptr init by (simp add: t nth_append last_conv_nth n)
  have "repeatedly (length ms) (atCurrentRender redo) ?u =
          Some (?u\<lparr>elements := (if length ms = 0 then elements ?u
                                else history ?u ! nat (historyIndex ?u + int (length ms))),
                  historyIndex := historyIndex ?u + int (length ms)\<rparr>)"
    by (rule repeatedly_redo) (use ne ptr in \<open>simp_all add: t\<close>)
  also have "\<dots> = Some t"
  proof -
    have i: "nat (historyIndex ?u + int (length ms)) = length (history s @ ms) - 1"
      using ne ptr by (simp add: t)
    have "(history s @ ms) ! (length (history s @ ms) - 1) = last (history s @ ms)"
      using False by (subst last_conv_nth) simp_all
    also have "\<dots> = last ms" using False by simp
    finally have "history ?u ! nat (historyIndex ?u + int (length ms)) = last ms"
      using i by (simp add: t)
    with False show ?thesis by (simp add: t)
  qed
  finally have u4: "repeatedly (length ms) (atCurrentRender redo) ?u = Some t" .
  from u1 u2 u3 u4 show ?thesis by blast
qed

text \<open>
  C4, as the code has it. Let the history already hold the initial array as its last
  snapshot, with the pointer on it, and let every mutation be committed by a handler of
  the render on screen that sets the array and records that same array, as
  \<^verbatim>\<open>addElement\<close>, \<^verbatim>\<open>deleteElementById\<close>, the stroke colour and width controls and the
  pointer-up commit do. After \<open>N\<close> such mutations, \<open>N\<close> undos bring the initial array
  back and \<open>N\<close> redos then restore the state reached after the mutations; on the canvas
  page this needs the history to stay within its 50 snapshots, in the hook it holds for
  every \<open>N\<close>. Undo with the pointer on the first snapshot and redo with the pointer on
  the last one change nothing.
\<close>

theorem undo_redo_round_trip:
  assumes "history s \<noteq> []"
    and "historyIndex s = int (length (history s)) - 1"
    and "last (history s) = elements s"
  shows "(length (history s) + length ms \<le> 50 \<longrightarrow>
            (\<exists>u. repeatedly (length ms) (atCurrentRender undo) (fold (\<lambda>els. atCurrentRender (commitMutation els)) ms s) = Some u
                 \<and> elements u = elements s
                 \<and> repeatedly (length ms) (atCurrentRender redo) u = Some (fold (\<lambda>els. atCurrentRender (commitMutation els)) ms s)))
         \<and> (\<exists>u. repeatedly (length ms) (atCurrentRender useCanvasState_undo) (fold (\<lambda>els. atCurrentRender (useCanvasState_commit els)) ms s) = Some u
                 \<and> elements u = elements s
                 \<and> repeatedly (length ms) (atCurrentRender useCanvasState_redo) u
                     = Some (fold (\<lambda>els. atCurrentRender (useCanvasState_commit els)) ms s))
         \<and> (historyIndex t = 0 \<longrightarrow> atCurrentRender undo t = Some t)
         \<and> (historyIndex t \<le> 0 \<longrightarrow> atCurrentRender useCanvasState_undo t = Some t)
         \<and> (historyIndex t \<ge> int (length (history t)) - 1 \<longrightarrow>
              atCurrentRender redo t = Some t \<and> atCurrentRender useCanvasState_redo t = Some t)"
proof (intro conjI impI)
  assume "length (history s) + length ms \<le> 50"
  from fold_commitMutation [OF assms(2) this]
  have "\<exists>u. repeatedly (length ms) (atCurrentRender undo) (fold (\<lambda>els. atCurrentRender (commitMutation els)) ms s) = Some u \<and>
            elements u = elements s \<and>
            repeatedly (length ms) (atCurrentRender useCanvasState_undo) (fold (\<lambda>els. atCurrentRender (commitMutation els)) ms s) = Some u \<and>
            repeatedly (length ms) (atCurrentRender redo) u = Some (fold (\<lambda>els. atCurrentRender (commitMutation els)) ms s)"
    by (rule round_trip_appended [OF assms])
  then show "\<exists>u. repeatedly (length ms) (atCurrentRender undo) (fold (\<lambda>els. atCurrentRender (commitMutation els)) ms s) = Some u
                 \<and> elements u = elements s
                 \<and> repeatedly (length ms) (atCurrentRender redo) u = Some (fold (\<lambda>els. atCurrentRender (commitMutation els)) ms s)"
    by blast
next
  have r: "repeatedly n (atCurrentRender useCanvasState_redo) x = repeatedly n (atCurrentRender redo) x" for n and x :: "'a canvas"
    by (rule repeatedly_cong) (rule useCanvasState_redo_eq)
  from fold_useCanvasState_commit [OF assms(2)]
  have "\<exists>u. repeatedly (length ms) (atCurrentRender undo) (fold (\<lambda>els. atCurrentRender (useCanvasState_commit els)) ms s) = Some u \<and>
            elements u = elements s \<and>
            repeatedly (length ms) (atCurrentRender useCanvasState_undo) (fold (\<lambda>els. atCurrentRender (useCanvasState_commit els)) ms s) = Some u \<and>
            repeatedly (length ms) (atCurrentRender redo) u = Some (fold (\<lambda>els. atCurrentRender (useCanvasState_commit els)) ms s)"
    by (rule round_trip_appended [OF assms])
  then show "\<exists>u. repeatedly (length ms) (atCurrentRender useCanvasState_undo) (fold (\<lambda>els. atCurrentRender (useCanvasState_commit els)) ms s) = Some u
                 \<and> elements u = elements s
                 \<and> repeatedly (length ms) (atCurrentRender useCanvasState_redo) u
                     = Some (fold (\<lambda>els. atCurrentRender (useCanvasState_commit els)) ms s)"
    by (auto simp: r)
next
  assume "historyIndex t = 0"
  then show "atCurrentRender undo t = Some t" by (simp add: atCurrentRender_def undo_def)
next
  assume "historyIndex t \<le> 0"
  then show "atCurrentRender useCanvasState_undo t = Some t" by (simp add: atCurrentRender_def useCanvasState_undo_def)
next
  assume "int (length (history t)) - 1 \<le> historyIndex t"
  then show "atCurrentRender redo t = Some t" by (simp add: atCurrentRender_def redo_def)
next
  assume "int (length (history t)) - 1 \<le> historyIndex t"
  then show "atCurrentRender useCanvasState_redo t = Some t" by (simp add: atCurrentRender_def useCanvasState_redo_def)
qed

theorem undo_redo_round_trip_witness:
  "map_option elements
     (repeatedly 2 (atCurrentRender undo) (fold (\<lambda>els. atCurrentRender (commitMutation els)) [[0, 1], [0, 1, 2]]
        \<lparr>elements = [0::nat], history = [[0]], historyIndex = 0\<rparr>)) = Some [0]
   \<and> map_option elements
     (repeatedly 2 (atCurrentRender useCanvasState_undo) (fold (\<lambda>els. atCurrentRender (useCanvasState_commit els)) [[0, 1], [0, 1, 2]]
        \<lparr>elements = [0::nat], history = [[0]], historyIndex = 0\<rparr>)) = Some [0]
   \<and> atCurrentRender undo \<lparr>elements = [0::nat], history = [[0]], historyIndex = 0\<rparr>
       = Some \<lparr>elements = [0::nat], history = [[0]], historyIndex = 0\<rparr>
   \<and> atCurrentRender redo \<lparr>elements = [0::nat], history = [[0]], historyIndex = 0\<rparr>
       = Some \<lparr>elements = [0::nat], history = [[0]], historyIndex = 0\<rparr>"
proof -
  let ?s = "\<lparr>elements = [0::nat], history = [[0]], historyIndex = 0\<rparr>"
  have 1: "history ?s \<noteq> []" by simp
  have 2: "historyIndex ?s = int (length (history ?s)) - 1" by simp
  have 3: "last (history ?s) = elements ?s" by simp
  from undo_redo_round_trip [OF 1 2 3, of "[[0, 1], [0, 1, 2]]" ?s]
  show ?thesis by (auto simp: numeral_2_eq_2)
qed

text \<open>
  The claim does not hold from the state the page starts in, where the initial array was
  never recorded: after one committed mutation the pointer is on the first snapshot, undo
  changes nothing and the live array stays \<open>[7]\<close>, not the initial \<open>[]\<close>. With the initial
  array recorded, 50 mutations push it out of the 50 snapshots, and 50 undos end on the
  array of the first mutation. Nor does it hold for every way the page commits a
  mutation: \<^verbatim>\<open>duplicateElement\<close> and \<^verbatim>\<open>applyColor\<close> record the array from before
  the change, so undo and redo after one of them end on the initial array \<open>[0]\<close> and not
  on the final \<open>[0, 1]\<close>; and a mutation committed by a listener that was registered
  while the history was empty replaces the initial snapshot, so undo leaves \<open>[0, 1]\<close>.
\<close>

theorem undo_round_trip_counterexample:
  "map_option elements (repeatedly 1 (atCurrentRender undo) (fold (\<lambda>els. atCurrentRender (commitMutation els)) [[7::nat]] initialCanvas)) = Some [7]
   \<and> elements (initialCanvas :: nat canvas) = []
   \<and> length fiftyMutations = 50
   \<and> map_option elements
       (repeatedly 50 (atCurrentRender undo) (fold (\<lambda>els. atCurrentRender (commitMutation els)) fiftyMutations
          \<lparr>elements = [0::nat], history = [[0]], historyIndex = 0\<rparr>)) = Some [1]
   \<and> atCurrentRender (commitRecordingRender [0, 1])
         \<lparr>elements = [0::nat], history = [[0]], historyIndex = 0\<rparr>
       = \<lparr>elements = [0, 1], history = [[0], [0]], historyIndex = 1\<rparr>
   \<and> repeatedly 1 (atCurrentRender undo)
         \<lparr>elements = [0::nat, 1], history = [[0], [0]], historyIndex = 1\<rparr>
       = Some \<lparr>elements = [0], history = [[0], [0]], historyIndex = 0\<rparr>
   \<and> repeatedly 1 (atCurrentRender redo)
         \<lparr>elements = [0::nat], history = [[0], [0]], historyIndex = 0\<rparr>
       = Some \<lparr>elements = [0], history = [[0], [0]], historyIndex = 1\<rparr>
   \<and> commitMutation [0, 1] initialCanvas
         \<lparr>elements = [0::nat], history = [[0]], historyIndex = 0\<rparr>
       = \<lparr>elements = [0, 1], history = [[0, 1]], historyIndex = 1\<rparr>
   \<and> repeatedly 1 (atCurrentRender undo)
         \<lparr>elements = [0::nat, 1], history = [[0, 1]], historyIndex = 1\<rparr>
       = Some \<lparr>elements = [0, 1], history = [[0, 1]], historyIndex = 0\<rparr>"
  by (simp add: atCurrentRender_def initialCanvas_def commitMutation_def
      commitRecordingRender_def recordHistory_def slice0_def undo_def redo_def
      Let_def snapshotAt_def upt_rec numeral_eq_Suc fiftyMutations_def)

text \<open>
  Outside the precondition of the two results above: undo on the empty history the page
  starts with moves the pointer from \<open>-1\<close> to \<open>0\<close>, and the next \<^verbatim>\<open>recordHistory\<close>
  then leaves the pointer one past the only snapshot.
\<close>

lemma undo_on_empty_history:
  "atCurrentRender undo (initialCanvas :: nat canvas) = Some (initialCanvas\<lparr>historyIndex := 0\<rparr>)
   \<and> history (atCurrentRender (recordHistory [7]) (initialCanvas\<lparr>historyIndex := 0\<rparr>))
       = [[7::nat]]
   \<and> historyIndex (atCurrentRender (recordHistory [7])
         ((initialCanvas :: nat canvas)\<lparr>historyIndex := 0\<rparr>)) = 1"
  by (simp add: atCurrentRender_def initialCanvas_def undo_def recordHistory_def slice0_def
      Let_def)

subsection \<open>Applying inbound element events\<close>

lemma elements_commitMutation: "elements (commitMutation els r s) = els"
  by (simp add: commitMutation_def recordHistory_def Let_def)

text \<open>
  The three listeners read their argument as the element, or the id, itself. Called with
  such an argument, \<^verbatim>\<open>handleElementCreate\<close> leaves the state as it is when some local
  element has the id, \<^verbatim>\<open>handleElementUpdate\<close> leaves the element array as it is when no
  local element has the id, and \<^verbatim>\<open>handleElementDelete\<close> twice gives the element array
  that once gives.
\<close>

lemma listeners_on_bare_arguments:
  "((\<exists>el\<in>set (elements s). strictEq (el ''id'') (element ''id''))
       \<longrightarrow> handleElementCreate element r s = s)
   \<and> ((\<forall>el\<in>set (elements s). \<not> strictEq (el ''id'') (updatedElement ''id''))
       \<longrightarrow> elements (handleElementUpdate updatedElement r s) = elements s)
   \<and> elements (handleElementDelete elementId r (handleElementDelete elementId r s))
       = elements (handleElementDelete elementId r s)"
proof (intro conjI impI)
  assume "\<exists>el\<in>set (elements s). strictEq (el ''id'') (element ''id'')"
  then have "find (\<lambda>el. strictEq (el ''id'') (element ''id'')) (elements s) \<noteq> None"
    by (auto simp: find_None_iff)
  then show "handleElementCreate element r s = s"
    by (auto simp: handleElementCreate_def)
next
  assume "\<forall>el\<in>set (elements s). \<not> strictEq (el ''id'') (updatedElement ''id'')"
  then have "map (\<lambda>el. if strictEq (el ''id'') (updatedElement ''id'') then el ++ updatedElement else el)
               (elements s) = elements s"
    by (simp add: map_idI)
  then show "elements (handleElementUpdate updatedElement r s) = elements s"
    by (simp add: handleElementUpdate_def elements_commitMutation)
next
  show "elements (handleElementDelete elementId r (handleElementDelete elementId r s))
          = elements (handleElementDelete elementId r s)"
    by (simp add: handleElementDelete_def elements_commitMutation)
qed

text \<open>
  C6 fails in the code. The listeners are registered on the socket as they are, and what
  the server emits is not the element or the id but an object around it:
  \<^verbatim>\<open>{element, createdBy, timestamp}\<close> for \<^verbatim>\<open>element-created\<close> and
  \<^verbatim>\<open>{elementId, deletedBy, timestamp}\<close> for \<^verbatim>\<open>element-deleted\<close>. The listener compares
  the \<^verbatim>\<open>id\<close> of that object, which it does not have, with the ids in the store. So on a
  page that holds the sticky note it has just added, the \<^verbatim>\<open>element-created\<close> event the
  server sends back for that note finds no element with the id and the payload object is
  appended to the store: the store is not left unchanged. Once the payload object is in
  the store, its absent id matches the absent id of every later payload and the next
  \<^verbatim>\<open>element-created\<close> event is dropped. The \<^verbatim>\<open>element-deleted\<close> event for the note
  removes nothing.
\<close>

theorem inbound_created_payload_appended:
  "elementCreatedPayload ''id'' = None
   \<and> elements localCanvas = [sticky]
   \<and> elements (handleElementCreate elementCreatedPayload initialCanvas localCanvas)
       = [sticky, elementCreatedPayload]
   \<and> handleElementCreate elementCreatedPayload initialCanvas
         (handleElementCreate elementCreatedPayload initialCanvas localCanvas)
       = handleElementCreate elementCreatedPayload initialCanvas localCanvas
   \<and> elements (handleElementDelete (Some elementDeletedPayload) initialCanvas localCanvas)
       = [sticky]"
proof -
  have p: "elementCreatedPayload ''id'' = None"
    by (simp add: elementCreatedPayload_def)
  have s: "sticky ''id'' = Some (JStr ''e1'')"
    by (simp add: sticky_def)
  have c: "handleElementCreate elementCreatedPayload initialCanvas localCanvas
             = commitMutation [sticky, elementCreatedPayload] initialCanvas localCanvas"
    by (simp add: handleElementCreate_def localCanvas_def p s strictEq_def)
  have "handleElementCreate elementCreatedPayload initialCanvas
          (commitMutation [sticky, elementCreatedPayload] initialCanvas localCanvas)
        = commitMutation [sticky, elementCreatedPayload] initialCanvas localCanvas"
    by (simp add: handleElementCreate_def elements_commitMutation p s strictEq_def)
  moreover have "elements (handleElementDelete (Some elementDeletedPayload) initialCanvas localCanvas)
        = [sticky]"
    by (simp add: handleElementDelete_def elements_commitMutation localCanvas_def s
        strictEq_def elementDeletedPayload_def)
  moreover have "elements localCanvas = [sticky]"
    by (simp add: localCanvas_def)
  ultimately show ?thesis
    using p by (simp add: c elements_commitMutation)
qed

subsection \<open>Hit testing\<close>

lemma sq_dist_expand:
  fixes A B C D t :: real
  shows "(A - t * C)\<^sup>2 + (B - t * D)\<^sup>2 = A\<^sup>2 + B\<^sup>2 - 2 * t * (A * C + B * D) + t\<^sup>2 * (C\<^sup>2 + D\<^sup>2)"
  by (simp add: power2_eq_square algebra_simps)

lemma sq_dist_diff:
  fixes A B C D t u p :: real
  assumes "A * C + B * D = p * (C\<^sup>2 + D\<^sup>2)"
  shows "((A - t * C)\<^sup>2 + (B - t * D)\<^sup>2) - ((A - u * C)\<^sup>2 + (B - u * D)\<^sup>2)
           = (C\<^sup>2 + D\<^sup>2) * ((t - u) * (t + u - 2 * p))"
  unfolding sq_dist_expand assms by (simp add: power2_eq_square algebra_simps)

lemma clamp_is_nearest:
  fixes p t :: real
  assumes "0 \<le> t" "t \<le> 1"
  shows "0 \<le> (t - (if p < 0 then 0 else if p > 1 then 1 else p))
              * (t + (if p < 0 then 0 else if p > 1 then 1 else p) - 2 * p)"
proof -
  consider "p < 0" | "p > 1" | "0 \<le> p" "p \<le> 1" by linarith
  then show ?thesis
  proof cases
    case 1
    with assms have "0 \<le> t * (t - 2 * p)" by (intro mult_nonneg_nonneg) simp_all
    with 1 show ?thesis by simp
  next
    case 2
    with assms have "0 \<le> (t - 1) * (t + 1 - 2 * p)" by (intro mult_nonpos_nonpos) simp_all
    with 2 show ?thesis by simp
  next
    case 3
    have "0 \<le> (t - p) * (t - p)" by simp
    with 3 show ?thesis by (simp add: algebra_simps)
  qed
qed

text \<open>The parameter of the point the code measures to: the projection, clamped to the segment.\<close>

lemma distanceToLine_param:
  fixes px py x1 y1 x2 y2 :: real
  defines "t0 \<equiv> (if (x2 - x1)\<^sup>2 + (y2 - y1)\<^sup>2 = 0 then 0
               else if ((px - x1) * (x2 - x1) + (py - y1) * (y2 - y1))
                        / ((x2 - x1)\<^sup>2 + (y2 - y1)\<^sup>2) < 0 then 0
               else if ((px - x1) * (x2 - x1) + (py - y1) * (y2 - y1))
                        / ((x2 - x1)\<^sup>2 + (y2 - y1)\<^sup>2) > 1 then 1
               else ((px - x1) * (x2 - x1) + (py - y1) * (y2 - y1))
                        / ((x2 - x1)\<^sup>2 + (y2 - y1)\<^sup>2))"
  shows "distanceToLine px py x1 y1 x2 y2
           = sqrt ((px - (x1 + t0 * (x2 - x1)))\<^sup>2 + (py - (y1 + t0 * (y2 - y1)))\<^sup>2)"
  unfolding t0_def by (simp add: distanceToLine_def Let_def power2_eq_square)

lemma nearest_on_segment:
  fixes A B C D t :: real
  assumes "0 \<le> t" "t \<le> 1"
  defines "p \<equiv> (A * C + B * D) / (C\<^sup>2 + D\<^sup>2)"
  defines "t0 \<equiv> (if C\<^sup>2 + D\<^sup>2 = 0 then 0 else if p < 0 then 0 else if p > 1 then 1 else p)"
  shows "(A - t0 * C)\<^sup>2 + (B - t0 * D)\<^sup>2 \<le> (A - t * C)\<^sup>2 + (B - t * D)\<^sup>2"
proof (cases "C\<^sup>2 + D\<^sup>2 = 0")
  case True
  then have "C = 0" "D = 0" by simp_all
  then show ?thesis by simp
next
  case False
  then have pq: "A * C + B * D = p * (C\<^sup>2 + D\<^sup>2)" by (simp add: p_def)
  have t0: "t0 = (if p < 0 then 0 else if p > 1 then 1 else p)"
    unfolding t0_def by (simp only: False if_False)
  have "0 \<le> (C\<^sup>2 + D\<^sup>2) * ((t - t0) * (t + t0 - 2 * p))"
    unfolding t0 by (intro mult_nonneg_nonneg clamp_is_nearest assms) simp
  with sq_dist_diff [OF pq, of t t0] show ?thesis by simp
qed

lemma offset_from_start:
  fixes q a b t :: real
  shows "q - (a + t * (b - a)) = (q - a) - t * (b - a)"
  by simp

lemma distanceToLine_least:
  fixes px py x1 y1 x2 y2 t :: real
  assumes "0 \<le> t" "t \<le> 1"
  shows "distanceToLine px py x1 y1 x2 y2
           \<le> sqrt ((px - (x1 + t * (x2 - x1)))\<^sup>2 + (py - (y1 + t * (y2 - y1)))\<^sup>2)"
  unfolding distanceToLine_param offset_from_start
  by (rule real_sqrt_le_mono) (rule nearest_on_segment [OF assms])

lemma distanceToLine_attained:
  fixes px py x1 y1 x2 y2 :: real
  shows "\<exists>t. distanceToLine px py x1 y1 x2 y2
               = sqrt ((px - (x1 + t * (x2 - x1)))\<^sup>2 + (py - (y1 + t * (y2 - y1)))\<^sup>2)
             \<and> 0 \<le> t \<and> t \<le> 1"
  unfolding distanceToLine_param
  by (rule exI, rule conjI, rule refl) simp

lemma distanceToLine_segmentDistance:
  "distanceToLine px py x1 y1 x2 y2 = segmentDistance (px, py) (x1, y1) (x2, y2)"
proof -
  obtain t0 where t0: "distanceToLine px py x1 y1 x2 y2
               = sqrt ((px - (x1 + t0 * (x2 - x1)))\<^sup>2 + (py - (y1 + t0 * (y2 - y1)))\<^sup>2)"
      "0 \<le> t0" "t0 \<le> 1"
    using distanceToLine_attained by blast
  have "Inf {sqrt ((px - (x1 + t * (x2 - x1)))\<^sup>2 + (py - (y1 + t * (y2 - y1)))\<^sup>2)
             | t. 0 \<le> t \<and> t \<le> 1} = distanceToLine px py x1 y1 x2 y2"
  proof (rule cInf_eq_minimum)
    from t0 show "distanceToLine px py x1 y1 x2 y2
        \<in> {sqrt ((px - (x1 + t * (x2 - x1)))\<^sup>2 + (py - (y1 + t * (y2 - y1)))\<^sup>2)
             | t. 0 \<le> t \<and> t \<le> 1}"
      by blast
  next
    fix d
    assume "d \<in> {sqrt ((px - (x1 + t * (x2 - x1)))\<^sup>2 + (py - (y1 + t * (y2 - y1)))\<^sup>2)
             | t. 0 \<le> t \<and> t \<le> 1}"
    then obtain t where "d = sqrt ((px - (x1 + t * (x2 - x1)))\<^sup>2 + (py - (y1 + t * (y2 - y1)))\<^sup>2)"
      "0 \<le> t" "t \<le> 1" by blast
    then show "distanceToLine px py x1 y1 x2 y2 \<le> d"
      using distanceToLine_least by simp
  qed
  then show ?thesis by (simp add: segmentDistance_def)
qed

lemma nearPath_iff:
  "nearPath x y ps \<longleftrightarrow>
     (\<exists>j. Suc j < length ps \<and>
          distanceToLine x y (fst (ps ! j)) (snd (ps ! j)) (fst (ps ! Suc j)) (snd (ps ! Suc j)) < 10)"
proof (induction x y ps rule: nearPath.induct)
  case (1 x y p1 p2 ps)
  show ?case
  proof (cases "distanceToLine x y (fst p1) (snd p1) (fst p2) (snd p2) < 10")
    case True
    then have "Suc 0 < length (p1 # p2 # ps) \<and>
        distanceToLine x y (fst ((p1 # p2 # ps) ! 0)) (snd ((p1 # p2 # ps) ! 0))
          (fst ((p1 # p2 # ps) ! Suc 0)) (snd ((p1 # p2 # ps) ! Suc 0)) < 10"
      by simp
    then have "\<exists>j. Suc j < length (p1 # p2 # ps) \<and>
        distanceToLine x y (fst ((p1 # p2 # ps) ! j)) (snd ((p1 # p2 # ps) ! j))
          (fst ((p1 # p2 # ps) ! Suc j)) (snd ((p1 # p2 # ps) ! Suc j)) < 10"
      by (rule exI)
    with True show ?thesis by simp
  next
    case False
    let ?P = "\<lambda>qs j. Suc j < length qs \<and>
        distanceToLine x y (fst (qs ! j)) (snd (qs ! j)) (fst (qs ! Suc j)) (snd (qs ! Suc j)) < 10"
    have "(\<exists>j. ?P (p1 # p2 # ps) j) \<longleftrightarrow> (\<exists>j. ?P (p2 # ps) j)"
    proof
      assume "\<exists>j. ?P (p1 # p2 # ps) j"
      then obtain j where j: "?P (p1 # p2 # ps) j" ..
      with False obtain k where "j = Suc k" by (cases j) auto
      with j have "?P (p2 # ps) k" by simp
      then show "\<exists>j. ?P (p2 # ps) j" ..
    next
      assume "\<exists>j. ?P (p2 # ps) j"
      then obtain k where "?P (p2 # ps) k" ..
      then have "?P (p1 # p2 # ps) (Suc k)" by simp
      then show "\<exists>j. ?P (p1 # p2 # ps) j" ..
    qed
    with False 1 show ?thesis by simp
  qed
qed simp_all

lemma scanDown_step:
  "scanDown els x y (Suc i) =
     (if isHit x y (els ! i) then Some (els ! i) else scanDown els x y i)"
  by (auto simp: isHit_def Let_def nearPath_iff distanceToLine_segmentDistance)

lemma scanDown_find:
  "n \<le> length els \<Longrightarrow> scanDown els x y n = find (isHit x y) (rev (take n els))"
proof (induction n)
  case 0
  then show ?case by simp
next
  case (Suc n)
  then have "take (Suc n) els = take n els @ [els ! n]"
    by (simp add: take_Suc_conv_app_nth)
  with Suc show ?case by (simp only: scanDown_step) simp
qed

text \<open>
  C8. \<^verbatim>\<open>findElementAtPosition\<close> returns the first element, going from the end of the
  array to its start, that is hit, and \<^verbatim>\<open>null\<close> when none is. A line or arrow is hit
  when the point-to-segment distance to its two endpoints is below 10, a freehand element
  when that distance is below 10 for some pair of consecutive points, and any other
  element when the point lies in its bounding box, borders included. The distances are in
  the coordinates the function is called with.
\<close>

theorem findElementAtPosition_topmost:
  "findElementAtPosition els x y = find (isHit x y) (rev els)"
  by (simp add: findElementAtPosition_def scanDown_find)

lemma sqrt_less_10: "sqrt v < 10 \<longleftrightarrow> v < 100"
proof -
  have "sqrt 100 = 10" by (rule real_sqrt_unique) simp_all
  then have "sqrt v < 10 \<longleftrightarrow> sqrt v < sqrt 100" by simp
  then show ?thesis by (simp only: real_sqrt_less_iff)
qed

theorem findElementAtPosition_topmost_witness:
  "findElementAtPosition [box, wire] 50 5 = Some wire
   \<and> find (isHit 50 5) (rev [box, wire]) = Some wire
   \<and> findElementAtPosition [box, wire] 50 50 = Some box
   \<and> findElementAtPosition [box, wire] 200 200 = None"
proof -
  have 1: "findElementAtPosition [box, wire] 50 5 = Some wire"
    by (simp add: findElementAtPosition_def numeral_2_eq_2 Let_def wire_def distanceToLine_def
        sqrt_less_10)
  have 2: "findElementAtPosition [box, wire] 50 50 = Some box"
    by (simp add: findElementAtPosition_def numeral_2_eq_2 Let_def wire_def box_def
        distanceToLine_def sqrt_less_10)
  have 3: "findElementAtPosition [box, wire] 200 200 = None"
    by (simp add: findElementAtPosition_def numeral_2_eq_2 Let_def wire_def box_def
        distanceToLine_def sqrt_less_10)
  from 1 2 3 findElementAtPosition_topmost [of "[box, wire]" 50 5] show ?thesis by simp
qed

subsection \<open>Freehand strokes\<close>

lemma hypot_vertical: "hypot 0 b = \<bar>b\<bar>"
  by (simp add: hypot_def)

lemma sampleGaps_vertical:
  "sampleGaps (map (\<lambda>i. (0, c * real i)) [k..<n]) = replicate (n - Suc k) \<bar>c\<bar>"
proof (induction "n - k" arbitrary: k)
  case 0
  then show ?case by simp
next
  case (Suc m)
  then have k: "k < n" by simp
  show ?case
  proof (cases "Suc k < n")
    case True
    from Suc have "sampleGaps (map (\<lambda>i. (0, c * real i)) [Suc k..<n]) = replicate (n - Suc (Suc k)) \<bar>c\<bar>"
      by (intro Suc.hyps(1)) simp
    moreover have "[k..<n] = k # Suc k # [Suc (Suc k)..<n]" "[Suc k..<n] = Suc k # [Suc (Suc k)..<n]"
      using k True by (simp_all add: upt_conv_Cons)
    moreover have "c * (1 + real k) - c * real k = c" by (simp add: algebra_simps)
    moreover from True have "n - Suc k = Suc (n - Suc (Suc k))" by simp
    ultimately show ?thesis by (simp add: hypot_vertical)
  next
    case False
    with k have "n = Suc k" by simp
    then show ?thesis by simp
  qed
qed

lemma vertical_canvas_points:
  "scale \<noteq> 0 \<Longrightarrow>
   map (canvasPoint scale (0, 0)) verticalSamples = map (\<lambda>i. (0, (1 / scale) * real i)) [0..<50]"
  by (simp add: verticalSamples_def canvasPoint_def)

lemma verticalSamples_length: "length verticalSamples = 50"
  by (simp add: verticalSamples_def)

lemma verticalSamples_gaps:
  "scale \<noteq> 0 \<Longrightarrow>
   sampleGaps (map (canvasPoint scale (0, 0)) verticalSamples) = replicate 49 \<bar>1 / scale\<bar>"
proof -
  assume "scale \<noteq> 0"
  then have "sampleGaps (map (canvasPoint scale (0, 0)) verticalSamples)
          = sampleGaps (map (\<lambda>i. (0, (1 / scale) * real i)) [0..<50])"
    by (simp add: vertical_canvas_points)
  also have "\<dots> = replicate (50 - Suc 0) \<bar>1 / scale\<bar>"
    by (rule sampleGaps_vertical)
  finally show ?thesis by simp
qed

lemma penCallback_near:
  assumes "el_id el = tempId" "el_points el \<noteq> []"
    and "hypot (fst (canvasPoint scale origin e) - fst (last (el_points el)))
               (snd (canvasPoint scale origin e) - snd (last (el_points el))) < 2"
  shows "penCallback scale origin e tempId el = Some el"
  using assms by (simp add: penCallback_def split_def Let_def)

lemma penCallback_far:
  assumes "el_id el = tempId" "el_points el \<noteq> []"
    and "\<not> hypot (fst (canvasPoint scale origin e) - fst (last (el_points el)))
               (snd (canvasPoint scale origin e) - snd (last (el_points el))) < 2"
  shows "\<exists>el'. penCallback scale origin e tempId el = Some el' \<and> enclosesPoints el'
               \<and> el_id el' = tempId
               \<and> el_points el' = el_points el @ [canvasPoint scale origin e]"
  using assms by (simp add: penCallback_def split_def Let_def enclosesPoints_def)

lemma penCallback_step:
  assumes "el_id el = tempId" "el_points el \<noteq> []"
  shows "\<exists>el'. penCallback scale origin e tempId el = Some el' \<and> el_points el' \<noteq> []
               \<and> el_id el' = tempId
               \<and> length (el_points el') \<le> Suc (length (el_points el))
               \<and> (enclosesPoints el \<longrightarrow> enclosesPoints el')"
proof (cases "hypot (fst (canvasPoint scale origin e) - fst (last (el_points el)))
               (snd (canvasPoint scale origin e) - snd (last (el_points el))) < 2")
  case True
  from penCallback_near [OF assms True] assms show ?thesis by simp
next
  case False
  from penCallback_far [OF assms False] show ?thesis by auto
qed

lemma drawnPath_bounds:
  assumes "el_id el = tempId" "el_points el \<noteq> []"
  shows "\<exists>el'. drawnPath scale origin tempId es el = Some el' \<and> el_points el' \<noteq> []
               \<and> el_id el' = tempId
               \<and> length (el_points el') \<le> length (el_points el) + length es
               \<and> (enclosesPoints el \<longrightarrow> enclosesPoints el')"
  using assms
proof (induction es arbitrary: el)
  case Nil
  then show ?case by simp
next
  case (Cons e es)
  from penCallback_step [OF Cons.prems, of scale origin e]
  obtain el1 where 1: "penCallback scale origin e tempId el = Some el1" "el_points el1 \<noteq> []"
    "el_id el1 = tempId"
    "length (el_points el1) \<le> Suc (length (el_points el))"
    "enclosesPoints el \<longrightarrow> enclosesPoints el1" by blast
  from Cons.IH [OF 1(3) 1(2)]
  obtain el2 where 2: "drawnPath scale origin tempId es el1 = Some el2" "el_points el2 \<noteq> []"
    "el_id el2 = tempId"
    "length (el_points el2) \<le> length (el_points el1) + length es"
    "enclosesPoints el1 \<longrightarrow> enclosesPoints el2" by blast
  from 1 2 show ?case by auto
qed

lemma drawnPath_all_far:
  assumes "el_id el = tempId" "el_points el \<noteq> []"
    and "\<forall>d\<in>set (sampleGaps (last (el_points el) # map (canvasPoint scale origin) es)). \<not> d < 2"
  shows "\<exists>el'. drawnPath scale origin tempId es el = Some el'
               \<and> el_points el' = el_points el @ map (canvasPoint scale origin) es
               \<and> (es \<noteq> [] \<longrightarrow> enclosesPoints el')"
  using assms
proof (induction es arbitrary: el)
  case Nil
  then show ?case by simp
next
  case (Cons e es)
  from Cons.prems(3)
  have far: "\<not> hypot (fst (canvasPoint scale origin e) - fst (last (el_points el)))
               (snd (canvasPoint scale origin e) - snd (last (el_points el))) < 2"
    and rest: "\<forall>d\<in>set (sampleGaps (canvasPoint scale origin e # map (canvasPoint scale origin) es)). \<not> d < 2"
    by simp_all
  from penCallback_far [OF Cons.prems(1) Cons.prems(2) far]
  obtain el1 where 1: "penCallback scale origin e tempId el = Some el1" "enclosesPoints el1"
    "el_id el1 = tempId"
    "el_points el1 = el_points el @ [canvasPoint scale origin e]" by blast
  from 1(4) have ne: "el_points el1 \<noteq> []" and l: "last (el_points el1) = canvasPoint scale origin e"
    by simp_all
  from Cons.IH [OF 1(3) ne] rest l
  obtain el2 where 2: "drawnPath scale origin tempId es el1 = Some el2"
    "el_points el2 = el_points el1 @ map (canvasPoint scale origin) es"
    "es \<noteq> [] \<longrightarrow> enclosesPoints el2" by auto
  from drawnPath_bounds [OF 1(3) ne, of scale origin es] 2(1) 1(2) have "enclosesPoints el2" by simp
  with 1 2 show ?case by simp
qed

text \<open>The handlers on the element array follow the drawn element and leave the others.\<close>

lemma mapThrowing_others:
  assumes "\<forall>el\<in>set prev. el_id el \<noteq> tempId"
  shows "mapThrowing (penCallback scale origin e tempId) (prev @ [el]) =
           map_option (\<lambda>el'. prev @ [el']) (penCallback scale origin e tempId el)"
  using assms
proof (induction prev)
  case Nil
  then show ?case by (simp split: option.splits)
next
  case (Cons a prev)
  then have "penCallback scale origin e tempId a = Some a"
    by (simp add: penCallback_def)
  with Cons show ?case by (simp split: option.splits)
qed

lemma penMoves_drawnPath:
  assumes "\<forall>el\<in>set prev. el_id el \<noteq> tempId" "0 < tempId" "el_id el = tempId"
    "el_points el \<noteq> []"
  shows "penMoves scale origin es (prev @ [el], Some tempId) =
           map_option (\<lambda>el'. prev @ [el']) (drawnPath scale origin tempId es el)"
  using assms(3,4)
proof (induction es arbitrary: el)
  case Nil
  then show ?case by simp
next
  case (Cons e es)
  from penCallback_step [OF Cons.prems, of scale origin e]
  obtain el1 where 1: "penCallback scale origin e tempId el = Some el1" "el_points el1 \<noteq> []"
    "el_id el1 = tempId" by blast
  from assms(2) 1(1)
  have "handlePenDrawing scale origin e ''pen'' (prev @ [el], Some tempId) = Some (True, prev @ [el1])"
    by (simp add: handlePenDrawing_def mapThrowing_others [OF assms(1)])
  with 1(1) Cons.IH [OF 1(3) 1(2)] show ?case by simp
qed

lemma penStroke_drawnPath:
  assumes "\<forall>el\<in>set prev. el_id el \<noteq> now" "0 < now"
  shows "penStroke now scale origin (down # moves) prev =
           map_option (\<lambda>el'. prev @ [el'])
             (drawnPath scale origin now moves
                \<lparr>el_id = now, el_type = ''freehand'', el_x = fst (canvasPoint scale origin down),
                 el_y = snd (canvasPoint scale origin down), el_width = 1, el_height = 1,
                 el_x2 = 0, el_y2 = 0, el_points = [canvasPoint scale origin down]\<rparr>)"
proof -
  let ?start = "\<lparr>el_id = now, el_type = ''freehand'', el_x = fst (canvasPoint scale origin down),
                 el_y = snd (canvasPoint scale origin down), el_width = 1, el_height = 1,
                 el_x2 = 0, el_y2 = 0, el_points = [canvasPoint scale origin down]\<rparr>"
  have "startDrawingSurface now ''pen'' scale origin down (prev, None) = (prev @ [?start], Some now)"
    by (simp add: startDrawingSurface_def split_def Let_def)
  moreover have "penMoves scale origin moves (prev @ [?start], Some now) =
           map_option (\<lambda>el'. prev @ [el']) (drawnPath scale origin now moves ?start)"
    by (rule penMoves_drawnPath [OF assms]) simp_all
  ultimately show ?thesis by simp
qed

text \<open>
  C9, as the code has it. A pen stroke of 50 samples (the element's id being a fresh,
  non-zero clock reading) whose consecutive samples are less than 2 apart in canvas
  coordinates, that is after division by the positive zoom scale, appends one element
  with fewer than 50 points; its \<open>x\<close>, \<open>y\<close> are the least coordinates of its points and
  its \<open>width\<close>, \<open>height\<close> their extents, an extent of 0 being stored as 1.
\<close>

theorem pen_stroke_thinned_and_boxed:
  assumes "0 < scale"
    and "0 < now"
    and "\<forall>el\<in>set prev. el_id el \<noteq> now"
    and "length samples = 50"
    and "\<forall>d\<in>set (sampleGaps (map (canvasPoint scale origin) samples)). d < 2"
  shows "\<exists>el. penStroke now scale origin samples prev = Some (prev @ [el])
             \<and> el_id el = now
             \<and> length (el_points el) < 50
             \<and> el_points el \<noteq> []
             \<and> el_x el = Min (set (map fst (el_points el)))
             \<and> el_y el = Min (set (map snd (el_points el)))
             \<and> el_width el =
                 orOne (Max (set (map fst (el_points el))) - Min (set (map fst (el_points el))))
             \<and> el_height el =
                 orOne (Max (set (map snd (el_points el))) - Min (set (map snd (el_points el))))"
proof -
  from assms(4) obtain down m1 rest where s: "samples = down # m1 # rest" and r: "length rest = 48"
    by (cases samples; cases "tl samples") auto
  let ?start = "\<lparr>el_id = now, el_type = ''freehand'', el_x = fst (canvasPoint scale origin down),
                 el_y = snd (canvasPoint scale origin down), el_width = 1, el_height = 1,
                 el_x2 = 0, el_y2 = 0, el_points = [canvasPoint scale origin down]\<rparr>"
  have start: "el_id ?start = now" "el_points ?start \<noteq> []" "enclosesPoints ?start"
    by (simp_all add: enclosesPoints_def orOne_def)
  from assms(5) have "hypot (fst (canvasPoint scale origin m1) - fst (canvasPoint scale origin down))
        (snd (canvasPoint scale origin m1) - snd (canvasPoint scale origin down)) < 2"
    by (simp add: s)
  then have "penCallback scale origin m1 now ?start = Some ?start"
    by (intro penCallback_near) simp_all
  then have "drawnPath scale origin now (m1 # rest) ?start = drawnPath scale origin now rest ?start"
    by simp
  moreover have "penStroke now scale origin samples prev =
      map_option (\<lambda>el'. prev @ [el']) (drawnPath scale origin now (m1 # rest) ?start)"
    unfolding s by (rule penStroke_drawnPath [OF assms(3) assms(2)])
  ultimately have p: "penStroke now scale origin samples prev =
      map_option (\<lambda>el'. prev @ [el']) (drawnPath scale origin now rest ?start)"
    by simp
  from drawnPath_bounds [OF start(1) start(2), of scale origin rest] start(3)
  obtain el where "drawnPath scale origin now rest ?start = Some el" "el_id el = now"
    "length (el_points el) \<le> length (el_points ?start) + length rest" "enclosesPoints el"
    by blast
  with p r show ?thesis
    by (auto simp: enclosesPoints_def)
qed

theorem pen_stroke_thinned_and_boxed_witness:
  "\<exists>el. penStroke 7 1 (0, 0) verticalSamples [box, wire] = Some ([box, wire] @ [el])
        \<and> el_id el = 7
        \<and> length (el_points el) < 50
        \<and> el_points el \<noteq> []
        \<and> el_x el = Min (set (map fst (el_points el)))
        \<and> el_y el = Min (set (map snd (el_points el)))
        \<and> el_width el =
            orOne (Max (set (map fst (el_points el))) - Min (set (map fst (el_points el))))
        \<and> el_height el =
            orOne (Max (set (map snd (el_points el))) - Min (set (map snd (el_points el))))"
proof -
  have "sampleGaps (map (canvasPoint 1 (0, 0)) verticalSamples) = replicate 49 1"
    using verticalSamples_gaps [of 1] by simp
  then have g: "\<forall>d\<in>set (sampleGaps (map (canvasPoint 1 (0, 0)) verticalSamples)). d < 2"
    by simp
  have f: "\<forall>el\<in>set [box, wire]. el_id el \<noteq> 7"
    by (simp add: box_def wire_def)
  have "(0::real) < 1" "(0::nat) < 7" by simp_all
  from pen_stroke_thinned_and_boxed [OF this f verticalSamples_length g] show ?thesis .
qed

text \<open>
  The claim as stated, on raw pointer samples, does not hold when the canvas is zoomed
  out. At scale \<open>1/4\<close> (the smallest zoom) the 50 samples, one pixel apart on the screen,
  are 4 apart on the canvas: all 50 are kept. They all have \<open>x = 0\<close>, and the width
  stored is 1, not the extent 0.
\<close>

theorem pen_stroke_zoomed_out_counterexample:
  "length verticalSamples = 50
   \<and> set (sampleGaps verticalSamples) = {1}
   \<and> map_option (map (length \<circ> el_points)) (penStroke 7 (1 / 4) (0, 0) verticalSamples [])
       = Some [50]
   \<and> map_option (map (set \<circ> map fst \<circ> el_points)) (penStroke 7 (1 / 4) (0, 0) verticalSamples [])
       = Some [{0}]
   \<and> map_option (map el_width) (penStroke 7 (1 / 4) (0, 0) verticalSamples []) = Some [1]"
proof -
  let ?cp = "canvasPoint (1 / 4) (0, 0)"
  let ?moves = "map (\<lambda>i. (0, real i)) [1..<50]"
  let ?start = "\<lparr>el_id = 7, el_type = ''freehand'', el_x = fst (?cp (0, 0)),
                 el_y = snd (?cp (0, 0)), el_width = 1, el_height = 1,
                 el_x2 = 0, el_y2 = 0, el_points = [?cp (0, 0)]\<rparr>"
  have v: "verticalSamples = (0, 0) # ?moves"
    by (simp add: verticalSamples_def upt_conv_Cons)
  have raw: "sampleGaps verticalSamples = replicate 49 1"
    using sampleGaps_vertical [of 1 0 50] by (simp add: verticalSamples_def)
  have "sampleGaps (map ?cp verticalSamples) = replicate 49 4"
    using verticalSamples_gaps [of "1 / 4"] by simp
  then have far: "\<forall>d\<in>set (sampleGaps (last (el_points ?start) # map ?cp ?moves)). \<not> d < 2"
    by (simp add: v)
  have "el_id ?start = 7" "el_points ?start \<noteq> []" by simp_all
  from drawnPath_all_far [OF this far]
  obtain el where el: "drawnPath (1 / 4) (0, 0) 7 ?moves ?start = Some el"
    "el_points el = el_points ?start @ map ?cp ?moves" "enclosesPoints el" by auto
  from el(2) have all: "el_points el = map ?cp verticalSamples"
    by (simp add: v)
  have xs: "map fst (map ?cp verticalSamples) = map (\<lambda>i. 0) [0..<50]"
    by (simp add: verticalSamples_def canvasPoint_def)
  have s0: "set (map fst (el_points el)) = {0}"
    unfolding all xs by (simp add: image_constant_conv)
  from el(3) have "el_width el =
      orOne (Max (set (map fst (el_points el))) - Min (set (map fst (el_points el))))"
    by (simp only: enclosesPoints_def)
  then have w: "el_width el = 1"
    unfolding s0 by (simp add: orOne_def)
  have "\<forall>el\<in>set []. el_id el \<noteq> (7::nat)" "(0::nat) < 7" by simp_all
  from penStroke_drawnPath [OF this, of "1 / 4" "(0, 0)" "(0, 0)" ?moves]
  have "penStroke 7 (1 / 4) (0, 0) verticalSamples [] =
          map_option (\<lambda>el'. [] @ [el']) (drawnPath (1 / 4) (0, 0) 7 ?moves ?start)"
    unfolding v .
  with el(1) have "penStroke 7 (1 / 4) (0, 0) verticalSamples [] = Some [el]"
    by simp
  moreover have "length (el_points el) = 50"
    by (simp add: all verticalSamples_length)
  ultimately show ?thesis
    using s0 w raw verticalSamples_length by simp
qed

end
